theory Spec2Isabelle
  imports Main
begin

section \<open>Data model (gotask.go, lines 80-136)\<close>

text \<open>
  Go's \<^verbatim>\<open>int\<close> is modelled as \<open>int\<close>. Indices are compared with slice lengths before
  every use, so the only arithmetic that can leave the 64-bit range is the id counter's
  \<^verbatim>\<open>m.lastID++\<close>; its wrap-around is written out in \<open>incr\<close>.

  A \<^verbatim>\<open>time.Time\<close> is identified with the RFC 3339 text (nanosecond precision) that its
  \<^verbatim>\<open>MarshalJSON\<close> writes and its \<^verbatim>\<open>UnmarshalJSON\<close> reads: two values with the same
  text denote the same instant and offset.
\<close>

datatype time = RFC3339 string

record Task =
  ID :: int
  Title :: string
  Description :: string
  CreatedAt :: time

text \<open>The fields \<^verbatim>\<open>ID\<close> and \<^verbatim>\<open>Title\<close> of \<^verbatim>\<open>Column\<close> carry a prefix here, as
  a record field name is a constant of the theory.\<close>

record Column =
  ColumnID :: int
  ColumnTitle :: string
  Tasks :: "Task list"

record KanbanBoard =
  Columns :: "Column list"

datatype InputMode = NormalMode | InsertMode

datatype DialogType = NoDialog | DeleteDialog | EditDialog

text \<open>
  The \<^verbatim>\<open>error\<close> values the program can hold in \<^verbatim>\<open>m.err\<close>: a failed file operation,
  JSON text that does not parse, and a JSON value of the wrong type for its field.
\<close>

datatype error = PathError | SyntaxError | UnmarshalTypeError

text \<open>
  The text input widget (\<^verbatim>\<open>textinput.Model\<close> of the bubbles library) is not code of the
  program. Only its buffer is modelled; \<^verbatim>\<open>Value\<close>, \<^verbatim>\<open>Reset\<close> and \<^verbatim>\<open>SetValue\<close> read,
  clear and replace it. What the widget does with a message it is handed
  (\<^verbatim>\<open>textInput.Update(msg)\<close>) is a parameter \<open>ti\<close> of the transition functions below.
\<close>

record textinput =
  Value :: string

definition Reset :: "textinput \<Rightarrow> textinput" where
  "Reset t = t\<lparr>Value := ''''\<rparr>"

definition SetValue :: "string \<Rightarrow> textinput \<Rightarrow> textinput" where
  "SetValue s t = t\<lparr>Value := s\<rparr>"

text \<open>
  \<^verbatim>\<open>editingTask *Task\<close> points at an element of a column's task slice
  (\<^verbatim>\<open>&col.Tasks[m.cursorTask]\<close>); it is modelled as the position (column, row) it was taken
  at. The styling values, the viewports and \<^verbatim>\<open>headerHeight\<close> belong to rendering and are
  left out; there are always three viewports (\<^verbatim>\<open>make([]viewport.Model, 3)\<close>).
\<close>

record model =
  board :: KanbanBoard
  cursorColumn :: int
  cursorTask :: int
  textInput :: textinput
  inputMode :: bool
  inputState :: InputMode
  width :: int
  height :: int
  err :: "error option"
  savePath :: string
  lastID :: int
  showTaskInput :: bool
  showHelp :: bool
  dialogType :: DialogType
  editingTask :: "(nat \<times> nat) option"

text \<open>Messages: a key press, identified by \<^verbatim>\<open>msg.String()\<close>, a window resize, or any
  other message of the runtime. Commands: \<^verbatim>\<open>nil\<close>, \<^verbatim>\<open>tea.Quit\<close>,
  \<^verbatim>\<open>textinput.Blink\<close>, or a command of the text input widget.\<close>

datatype Msg = KeyMsg string | WindowSizeMsg int int | OtherMsg

datatype Cmd = NoCmd | Quit | Blink | WidgetCmd

type_synonym widget = "Msg \<Rightarrow> textinput \<Rightarrow> textinput \<times> Cmd"

section \<open>Persistence (gotask.go, lines 186-219)\<close>

text \<open>
  The snapshot file holds a JSON document. \<^verbatim>\<open>encoding/json\<close> is not code of the
  program; what the program fixes are the struct tags, which name the keys of the
  document. \<open>Marshal\<close> and \<open>Unmarshal\<close> are modelled on documents (\<open>json\<close> values): the
  text layer between a document and the bytes of the file is the library's. \<open>JNum\<close> holds
  an integer literal in the range of \<^verbatim>\<open>int\<close>; a file that does not parse is \<open>Malformed\<close>.
  A \<open>string\<close> stands for a text (valid UTF-8), which is what the program's strings are:
  they come from the text input or from the decoder.
\<close>

datatype json =
  JNull | JBool bool | JNum int | JStr string | JArr "json list" | JObj "(string \<times> json) list"

datatype filedata = Document json | Malformed

fun marshal_Task :: "Task \<Rightarrow> json" where
  "marshal_Task t =
     (case CreatedAt t of RFC3339 s \<Rightarrow>
        JObj [(''id'', JNum (ID t)), (''title'', JStr (Title t)),
              (''description'', JStr (Description t)), (''created_at'', JStr s)])"

fun marshal_Column :: "Column \<Rightarrow> json" where
  "marshal_Column c =
     JObj [(''id'', JNum (ColumnID c)), (''title'', JStr (ColumnTitle c)),
           (''tasks'', JArr (map marshal_Task (Tasks c)))]"

fun marshal_KanbanBoard :: "KanbanBoard \<Rightarrow> json" where
  "marshal_KanbanBoard b = JObj [(''columns'', JArr (map marshal_Column (Columns b)))]"

text \<open>
  \<open>Unmarshal\<close> decodes into an existing value and goes on after a value of the wrong
  type, which it skips and reports at the end: each decoder returns the new value and
  whether a type error was met. A key that names no field is ignored, and \<^verbatim>\<open>null\<close>
  leaves a number, string or struct as it is and empties a slice. An array replaces the
  slice: element \<open>i\<close> is decoded into the slice's old element \<open>i\<close> where there is one
  (the decoder reuses it) and into a zero value otherwise. Two things the library does
  with documents the program never writes are outside the model: it also accepts a key
  that differs from the tag in case only, and it rejects a \<^verbatim>\<open>created_at\<close> string that is
  not an RFC 3339 time.
\<close>

fun unmarshal_slice ::
  "(json \<Rightarrow> 'a \<Rightarrow> 'a \<times> bool) \<Rightarrow> 'a \<Rightarrow> json list \<Rightarrow> 'a list \<Rightarrow> ('a \<times> bool) list" where
  "unmarshal_slice dec z [] old = []"
| "unmarshal_slice dec z (j # js) [] = dec j z # unmarshal_slice dec z js []"
| "unmarshal_slice dec z (j # js) (x # xs) = dec j x # unmarshal_slice dec z js xs"

fun unmarshal_int :: "json \<Rightarrow> int \<Rightarrow> int \<times> bool" where
  "unmarshal_int (JNum n) old = (n, False)"
| "unmarshal_int JNull old = (old, False)"
| "unmarshal_int _ old = (old, True)"

fun unmarshal_string :: "json \<Rightarrow> string \<Rightarrow> string \<times> bool" where
  "unmarshal_string (JStr s) old = (s, False)"
| "unmarshal_string JNull old = (old, False)"
| "unmarshal_string _ old = (old, True)"

fun unmarshal_time :: "json \<Rightarrow> time \<Rightarrow> time \<times> bool" where
  "unmarshal_time (JStr s) old = (RFC3339 s, False)"
| "unmarshal_time JNull old = (old, False)"
| "unmarshal_time _ old = (old, True)"

definition zero_time :: time where
  "zero_time = RFC3339 ''0001-01-01T00:00:00Z''"

definition zero_Task :: Task where
  "zero_Task = \<lparr>ID = 0, Title = '''', Description = '''', CreatedAt = zero_time\<rparr>"

definition zero_Column :: Column where
  "zero_Column = \<lparr>ColumnID = 0, ColumnTitle = '''', Tasks = []\<rparr>"

fun unmarshal_Task_fields :: "(string \<times> json) list \<Rightarrow> Task \<Rightarrow> Task \<times> bool" where
  "unmarshal_Task_fields [] t = (t, False)"
| "unmarshal_Task_fields ((k, v) # kvs) t =
     (let (t1, e1) =
        (if k = ''id'' then (let (n, e) = unmarshal_int v (ID t) in (t\<lparr>ID := n\<rparr>, e))
         else if k = ''title'' then
           (let (s, e) = unmarshal_string v (Title t) in (t\<lparr>Title := s\<rparr>, e))
         else if k = ''description'' then
           (let (s, e) = unmarshal_string v (Description t) in (t\<lparr>Description := s\<rparr>, e))
         else if k = ''created_at'' then
           (let (c, e) = unmarshal_time v (CreatedAt t) in (t\<lparr>CreatedAt := c\<rparr>, e))
         else (t, False));
          (t2, e2) = unmarshal_Task_fields kvs t1
      in (t2, e1 \<or> e2))"

fun unmarshal_Task :: "json \<Rightarrow> Task \<Rightarrow> Task \<times> bool" where
  "unmarshal_Task (JObj kvs) t = unmarshal_Task_fields kvs t"
| "unmarshal_Task JNull t = (t, False)"
| "unmarshal_Task _ t = (t, True)"

fun unmarshal_Tasks :: "json \<Rightarrow> Task list \<Rightarrow> Task list \<times> bool" where
  "unmarshal_Tasks (JArr js) old =
     (let rs = unmarshal_slice unmarshal_Task zero_Task js old
      in (map fst rs, list_ex snd rs))"
| "unmarshal_Tasks JNull old = ([], False)"
| "unmarshal_Tasks _ old = (old, True)"

fun unmarshal_Column_fields :: "(string \<times> json) list \<Rightarrow> Column \<Rightarrow> Column \<times> bool" where
  "unmarshal_Column_fields [] c = (c, False)"
| "unmarshal_Column_fields ((k, v) # kvs) c =
     (let (c1, e1) =
        (if k = ''id'' then (let (n, e) = unmarshal_int v (ColumnID c) in (c\<lparr>ColumnID := n\<rparr>, e))
         else if k = ''title'' then
           (let (s, e) = unmarshal_string v (ColumnTitle c) in (c\<lparr>ColumnTitle := s\<rparr>, e))
         else if k = ''tasks'' then
           (let (ts, e) = unmarshal_Tasks v (Tasks c) in (c\<lparr>Tasks := ts\<rparr>, e))
         else (c, False));
          (c2, e2) = unmarshal_Column_fields kvs c1
      in (c2, e1 \<or> e2))"

fun unmarshal_Column :: "json \<Rightarrow> Column \<Rightarrow> Column \<times> bool" where
  "unmarshal_Column (JObj kvs) c = unmarshal_Column_fields kvs c"
| "unmarshal_Column JNull c = (c, False)"
| "unmarshal_Column _ c = (c, True)"

fun unmarshal_Columns :: "json \<Rightarrow> Column list \<Rightarrow> Column list \<times> bool" where
  "unmarshal_Columns (JArr js) old =
     (let rs = unmarshal_slice unmarshal_Column zero_Column js old
      in (map fst rs, list_ex snd rs))"
| "unmarshal_Columns JNull old = ([], False)"
| "unmarshal_Columns _ old = (old, True)"

fun unmarshal_KanbanBoard_fields ::
  "(string \<times> json) list \<Rightarrow> KanbanBoard \<Rightarrow> KanbanBoard \<times> bool" where
  "unmarshal_KanbanBoard_fields [] b = (b, False)"
| "unmarshal_KanbanBoard_fields ((k, v) # kvs) b =
     (let (b1, e1) =
        (if k = ''columns'' then
           (let (cs, e) = unmarshal_Columns v (Columns b) in (b\<lparr>Columns := cs\<rparr>, e))
         else (b, False));
          (b2, e2) = unmarshal_KanbanBoard_fields kvs b1
      in (b2, e1 \<or> e2))"

fun unmarshal_KanbanBoard :: "json \<Rightarrow> KanbanBoard \<Rightarrow> KanbanBoard \<times> bool" where
  "unmarshal_KanbanBoard (JObj kvs) b = unmarshal_KanbanBoard_fields kvs b"
| "unmarshal_KanbanBoard JNull b = (b, False)"
| "unmarshal_KanbanBoard _ b = (b, True)"

text \<open>
  The file system, as far as the program sees it: the content of each path, and whether
  the operating system refuses to open files (\<open>fault\<close>; an open that is refused leaves the
  file as it was). \<open>now\<close> is what \<^verbatim>\<open>time.Now()\<close> returns during the transition.
\<close>

type_synonym files = "string \<Rightarrow> filedata option"

record env =
  now :: time
  fault :: bool

definition WriteFile :: "env \<Rightarrow> files \<Rightarrow> string \<Rightarrow> json \<Rightarrow> error option \<times> files" where
  "WriteFile e fs path doc =
     (if fault e then (Some PathError, fs) else (None, fs(path \<mapsto> Document doc)))"

definition saveBoard :: "env \<Rightarrow> files \<Rightarrow> model \<Rightarrow> error option \<times> files" where
  "saveBoard e fs m = WriteFile e fs (savePath m) (marshal_KanbanBoard (board m))"

text \<open>The two loops of \<^verbatim>\<open>loadBoard\<close> that find the highest task id.\<close>

definition highest_in_column :: "int \<Rightarrow> Column \<Rightarrow> int" where
  "highest_in_column l col = foldl (\<lambda>l task. if ID task > l then ID task else l) l (Tasks col)"

definition highest_id :: "int \<Rightarrow> KanbanBoard \<Rightarrow> int" where
  "highest_id l b = foldl highest_in_column l (Columns b)"

definition loadBoard :: "env \<Rightarrow> files \<Rightarrow> model \<Rightarrow> model \<times> error option" where
  "loadBoard e fs m =
     (if fault e then (m, Some PathError)
      else case fs (savePath m) of
        None \<Rightarrow> (m, None)
      | Some Malformed \<Rightarrow> (m, Some SyntaxError)
      | Some (Document doc) \<Rightarrow>
          (let (b, bad) = unmarshal_KanbanBoard doc (board m) in
           if bad then (m\<lparr>board := b\<rparr>, Some UnmarshalTypeError)
           else (m\<lparr>board := b, lastID := highest_id (lastID m) b\<rparr>, None)))"

text \<open>\<^verbatim>\<open>initialModel\<close>; \<open>path\<close> is \<^verbatim>\<open>filepath.Join(homedir, ".kanban.json")\<close>.\<close>

definition default_board :: KanbanBoard where
  "default_board = \<lparr>Columns =
     [\<lparr>ColumnID = 1, ColumnTitle = ''To Do'', Tasks = []\<rparr>,
      \<lparr>ColumnID = 2, ColumnTitle = ''In Progress'', Tasks = []\<rparr>,
      \<lparr>ColumnID = 3, ColumnTitle = ''Done'', Tasks = []\<rparr>]\<rparr>"

definition initialModel :: "env \<Rightarrow> files \<Rightarrow> string \<Rightarrow> model" where
  "initialModel e fs path =
     (let m = \<lparr>board = default_board, cursorColumn = 0, cursorTask = 0,
                textInput = \<lparr>Value = ''''\<rparr>, inputMode = False, inputState = NormalMode,
                width = 0, height = 0, err = None, savePath = path, lastID = 0,
                showTaskInput = False, showHelp = True, dialogType = NoDialog,
                editingTask = None\<rparr>;
          (m1, er) = loadBoard e fs m
      in case er of None \<Rightarrow> m1 | Some x \<Rightarrow> m1\<lparr>err := Some x\<rparr>)"

section \<open>Slices\<close>

text \<open>
  Reading \<^verbatim>\<open>xs[i]\<close> and removing element \<^verbatim>\<open>i\<close> with
  \<^verbatim>\<open>append(xs[:i], xs[i+1:]...)\<close>. Both panic (\<open>None\<close>) unless \<open>0 \<le> i < len(xs)\<close>: for
  the removal, \<^verbatim>\<open>xs[:i]\<close> needs \<open>0 \<le> i\<close> and \<^verbatim>\<open>xs[i+1:]\<close> needs \<open>i + 1 \<le> len(xs)\<close>.
\<close>

definition at :: "'a list \<Rightarrow> int \<Rightarrow> 'a option" where
  "at xs i = (if 0 \<le> i \<and> i < int (length xs) then Some (xs ! nat i) else None)"

definition removeAt :: "'a list \<Rightarrow> int \<Rightarrow> 'a list option" where
  "removeAt xs i =
     (if 0 \<le> i \<and> i < int (length xs) then Some (take (nat i) xs @ drop (nat i + 1) xs)
      else None)"

text \<open>Assigning \<^verbatim>\<open>col.Tasks = ts\<close> through \<^verbatim>\<open>col := &m.board.Columns[c]\<close>.\<close>

definition setTasks :: "KanbanBoard \<Rightarrow> nat \<Rightarrow> Task list \<Rightarrow> KanbanBoard" where
  "setTasks b c ts = b\<lparr>Columns := (Columns b)[c := (Columns b ! c)\<lparr>Tasks := ts\<rparr>]\<rparr>"

text \<open>Assigning \<^verbatim>\<open>m.editingTask.Title = s\<close> through the pointer taken at position
  \<open>(c, i)\<close>. A position that no longer names an element of the board writes nothing the
  board shows.\<close>

definition setTitle :: "KanbanBoard \<Rightarrow> nat \<times> nat \<Rightarrow> string \<Rightarrow> KanbanBoard" where
  "setTitle b p s =
     (case p of (c, i) \<Rightarrow>
        if c < length (Columns b) \<and> i < length (Tasks (Columns b ! c))
        then setTasks b c ((Tasks (Columns b ! c))[i := (Tasks (Columns b ! c) ! i)\<lparr>Title := s\<rparr>])
        else b)"

text \<open>\<^verbatim>\<open>m.lastID++\<close> on a 64-bit \<^verbatim>\<open>int\<close>.\<close>

definition incr :: "int \<Rightarrow> int" where
  "incr n = (if n = 9223372036854775807 then - 9223372036854775808 else n + 1)"

section \<open>The transition function of gotask.go (lines 225-570)\<close>

text \<open>
  \<open>Update\<close> returns \<open>None\<close> where the Go code panics (index out of range, integer
  division by zero), and otherwise the new model, the command and the files.
  \<^verbatim>\<open>updateViewportContent\<close> only writes the viewports, which are not modelled; what is
  kept of it is where it panics: \<^verbatim>\<open>m.width / len(m.board.Columns)\<close>,
  \<^verbatim>\<open>m.board.Columns[columnIndex]\<close> and \<^verbatim>\<open>m.viewports[columnIndex]\<close> with three viewports.
  The commands of the viewports (\<^verbatim>\<open>tea.Batch(cmds...)\<close>) are left out with them.
\<close>

type_synonym outcome = "(model \<times> Cmd \<times> files) option"

definition updateViewportContent :: "model \<Rightarrow> int \<Rightarrow> bool" where
  "updateViewportContent m columnIndex =
     (length (Columns (board m)) \<noteq> 0 \<and> 0 \<le> columnIndex \<and>
      columnIndex < int (length (Columns (board m))) \<and> columnIndex < 3)"

text \<open>\<^verbatim>\<open>if err := m.saveBoard(); err != nil { m.err = err }\<close>\<close>

definition persist :: "env \<Rightarrow> files \<Rightarrow> model \<Rightarrow> model \<times> files" where
  "persist e fs m =
     (case saveBoard e fs m of
        (None, fs') \<Rightarrow> (m, fs')
      | (Some er, fs') \<Rightarrow> (m\<lparr>err := Some er\<rparr>, fs'))"

text \<open>The quit keys (lines 323-328 and 394-399).\<close>

definition quitKey :: "env \<Rightarrow> files \<Rightarrow> model \<Rightarrow> outcome" where
  "quitKey e fs m =
     (case saveBoard e fs m of
        (Some er, fs') \<Rightarrow> Some (m\<lparr>err := Some er\<rparr>, NoCmd, fs')
      | (None, fs') \<Rightarrow> Some (m, Quit, fs'))"

text \<open>Removing the task under the cursor and clamping the cursor (lines 247-250,
  480-483 and 511-514).\<close>

definition removeUnderCursor :: "model \<Rightarrow> Column \<Rightarrow> (model \<times> Task list) option" where
  "removeUnderCursor m col =
     (case removeAt (Tasks col) (cursorTask m) of
        None \<Rightarrow> None
      | Some ts \<Rightarrow>
          (let m1 = m\<lparr>board := setTasks (board m) (nat (cursorColumn m)) ts\<rparr>
           in Some (if cursorTask m1 \<ge> int (length ts) \<and> cursorTask m1 > 0
                    then m1\<lparr>cursorTask := cursorTask m1 - 1\<rparr> else m1, ts)))"

text \<open>The delete confirmation dialog (lines 240-264).\<close>

definition updateDeleteDialog :: "env \<Rightarrow> files \<Rightarrow> string \<Rightarrow> model \<Rightarrow> outcome" where
  "updateDeleteDialog e fs k m =
     (if k = ''y'' \<or> k = ''Y'' then
        (case at (Columns (board m)) (cursorColumn m) of
           None \<Rightarrow> None
         | Some col \<Rightarrow>
             if length (Tasks col) > 0 then
               (case removeUnderCursor m col of
                  None \<Rightarrow> None
                | Some (m1, ts) \<Rightarrow>
                    (let (m2, fs') = persist e fs m1
                     in Some (m2\<lparr>dialogType := NoDialog\<rparr>, NoCmd, fs')))
             else Some (m\<lparr>dialogType := NoDialog\<rparr>, NoCmd, fs))
      else if k = ''n'' \<or> k = ''N'' \<or> k = ''esc'' \<or> k = ''q'' \<or> k = ''ctrl+c'' then
        Some (m\<lparr>dialogType := NoDialog\<rparr>, NoCmd, fs)
      else Some (m, NoCmd, fs))"

text \<open>The \<^verbatim>\<open>enter\<close> key of the input dialog: the same text in normal mode (lines 286-320)
  and in insert mode (lines 343-377).\<close>

definition commitInput :: "env \<Rightarrow> files \<Rightarrow> model \<Rightarrow> outcome" where
  "commitInput e fs m =
     (if dialogType m = EditDialog \<and> editingTask m \<noteq> None then
        (let m1 = m\<lparr>board := setTitle (board m) (the (editingTask m)) (Value (textInput m)),
                     inputMode := False, inputState := NormalMode, editingTask := None,
                     dialogType := NoDialog\<rparr>;
             (m2, fs') = persist e fs m1
         in Some (m2, NoCmd, fs'))
      else if Value (textInput m) \<noteq> [] then
        (let l = incr (lastID m);
             newTask = \<lparr>ID = l, Title = Value (textInput m), Description = [],
                        CreatedAt = now e\<rparr>
         in case at (Columns (board m)) (cursorColumn m) of
              None \<Rightarrow> None
            | Some col \<Rightarrow>
                (let m1 = m\<lparr>lastID := l,
                             board := setTasks (board m) (nat (cursorColumn m))
                                        (Tasks col @ [newTask]),
                             textInput := Reset (textInput m),
                             inputMode := False, inputState := NormalMode\<rparr>;
                     (m2, fs') = persist e fs m1
                 in Some (m2, NoCmd, fs')))
      else Some (m\<lparr>inputMode := False, inputState := NormalMode\<rparr>, NoCmd, fs))"

text \<open>Handing the message to the text input (lines 381-383 and 388-390).\<close>

definition forward :: "widget \<Rightarrow> Msg \<Rightarrow> files \<Rightarrow> model \<Rightarrow> outcome" where
  "forward ti msg fs m = (case ti msg (textInput m) of (t, c) \<Rightarrow> Some (m\<lparr>textInput := t\<rparr>, c, fs))"

text \<open>Input mode (lines 267-390). In normal mode a key that is none of the cases leaves
  the \<^verbatim>\<open>switch\<close> and reaches the statements after it, which hand it to the text input.\<close>

definition updateInput :: "widget \<Rightarrow> env \<Rightarrow> files \<Rightarrow> string \<Rightarrow> model \<Rightarrow> outcome" where
  "updateInput ti e fs k m =
     (case inputState m of
        NormalMode \<Rightarrow>
          if k = ''i'' then Some (m\<lparr>inputState := InsertMode\<rparr>, NoCmd, fs)
          else if k = ''esc'' \<or> k = ''ctrl+c'' then
            Some (m\<lparr>inputMode := False, textInput := Reset (textInput m),
                    inputState := NormalMode, editingTask := None, dialogType := NoDialog\<rparr>,
                  NoCmd, fs)
          else if k = ''enter'' then commitInput e fs m
          else if k = ''q'' then quitKey e fs m
          else if k = ''?'' then Some (m\<lparr>showHelp := \<not> showHelp m\<rparr>, NoCmd, fs)
          else forward ti (KeyMsg k) fs m
      | InsertMode \<Rightarrow>
          if k = ''esc'' then Some (m\<lparr>inputState := NormalMode\<rparr>, NoCmd, fs)
          else if k = ''enter'' then commitInput e fs m
          else forward ti (KeyMsg k) fs m)"

text \<open>Moving the task under the cursor to the column at \<open>dst\<close>, which is
  \<open>cursorColumn - 1\<close> for the keys \<^verbatim>\<open>[\<close> and \<^verbatim>\<open>{\<close> (lines 474-498) and \<open>cursorColumn + 1\<close>
  for \<^verbatim>\<open>]\<close> and \<^verbatim>\<open>}\<close> (lines 505-529); \<open>other\<close> is the column the cursor came from, as the
  code computes it after the move.\<close>

definition moveTask :: "env \<Rightarrow> files \<Rightarrow> int \<Rightarrow> model \<Rightarrow> outcome" where
  "moveTask e fs dst m =
     (case at (Columns (board m)) (cursorColumn m) of
        None \<Rightarrow> None
      | Some srcCol \<Rightarrow>
          if length (Tasks srcCol) > 0 then
            (case at (Columns (board m)) dst of
               None \<Rightarrow> None
             | Some destCol \<Rightarrow>
                 (case at (Tasks srcCol) (cursorTask m) of
                    None \<Rightarrow> None
                  | Some task \<Rightarrow>
                      (case removeUnderCursor m srcCol of
                         None \<Rightarrow> None
                       | Some (m1, ts) \<Rightarrow>
                           (let other = cursorColumn m;
                                m2 = m1\<lparr>board := setTasks (board m1) (nat dst)
                                                     (Tasks destCol @ [task])\<rparr>;
                                m3 = m2\<lparr>cursorColumn := dst,
                                         cursorTask := int (length (Tasks destCol @ [task])) - 1\<rparr>
                            in if updateViewportContent m3 (cursorColumn m3) \<and>
                                  updateViewportContent m3 other
                               then (let (m4, fs') = persist e fs m3 in Some (m4, NoCmd, fs'))
                               else None))))
          else Some (m, NoCmd, fs))"

text \<open>Browsing (lines 392-532). A case that does not return leaves the \<^verbatim>\<open>switch\<close> and
  the function returns the model with no command.\<close>

definition updateBrowsing :: "env \<Rightarrow> files \<Rightarrow> string \<Rightarrow> model \<Rightarrow> outcome" where
  "updateBrowsing e fs k m =
     (if k = ''ctrl+c'' \<or> k = ''q'' then quitKey e fs m
      else if k = ''?'' then Some (m\<lparr>showHelp := \<not> showHelp m\<rparr>, NoCmd, fs)
      else if k = ''a'' then
        Some (m\<lparr>inputMode := True, inputState := InsertMode,
                textInput := Reset (textInput m)\<rparr>, Blink, fs)
      else if k = ''n'' then
        Some (m\<lparr>inputMode := True, inputState := NormalMode,
                textInput := Reset (textInput m)\<rparr>, Blink, fs)
      else if k = ''e'' then
        (if length (Columns (board m)) > 0 then
           (case at (Columns (board m)) (cursorColumn m) of
              None \<Rightarrow> None
            | Some col \<Rightarrow>
                if length (Tasks col) > 0 then
                  (case at (Tasks col) (cursorTask m) of
                     None \<Rightarrow> None
                   | Some task \<Rightarrow>
                       Some (m\<lparr>dialogType := EditDialog,
                               editingTask := Some (nat (cursorColumn m), nat (cursorTask m)),
                               textInput := SetValue (Title task) (textInput m),
                               inputMode := True, inputState := InsertMode\<rparr>, Blink, fs))
                else Some (m, NoCmd, fs))
         else Some (m, NoCmd, fs))
      else if k = ''d'' then
        (if length (Columns (board m)) > 0 then
           (case at (Columns (board m)) (cursorColumn m) of
              None \<Rightarrow> None
            | Some col \<Rightarrow>
                if length (Tasks col) > 0 then Some (m\<lparr>dialogType := DeleteDialog\<rparr>, NoCmd, fs)
                else Some (m, NoCmd, fs))
         else Some (m, NoCmd, fs))
      else if k = ''up'' \<or> k = ''k'' then
        (case at (Columns (board m)) (cursorColumn m) of
           None \<Rightarrow> None
         | Some col \<Rightarrow>
             if length (Tasks col) > 0 then
               (let m1 = m\<lparr>cursorTask := max 0 (cursorTask m - 1)\<rparr>
                in if updateViewportContent m1 (cursorColumn m1) then Some (m1, NoCmd, fs)
                   else None)
             else Some (m, NoCmd, fs))
      else if k = ''down'' \<or> k = ''j'' then
        (case at (Columns (board m)) (cursorColumn m) of
           None \<Rightarrow> None
         | Some col \<Rightarrow>
             if length (Tasks col) > 0 then
               (let m1 = m\<lparr>cursorTask := min (int (length (Tasks col)) - 1) (cursorTask m + 1)\<rparr>
                in if updateViewportContent m1 (cursorColumn m1) then Some (m1, NoCmd, fs)
                   else None)
             else Some (m, NoCmd, fs))
      else if k = ''left'' \<or> k = ''h'' then
        (if cursorColumn m > 0 then
           (let m1 = m\<lparr>cursorColumn := cursorColumn m - 1, cursorTask := 0\<rparr>
            in if updateViewportContent m1 (cursorColumn m1) then Some (m1, NoCmd, fs) else None)
         else Some (m, NoCmd, fs))
      else if k = ''right'' \<or> k = ''l'' then
        (if cursorColumn m < int (length (Columns (board m))) - 1 then
           (let m1 = m\<lparr>cursorColumn := cursorColumn m + 1, cursorTask := 0\<rparr>
            in if updateViewportContent m1 (cursorColumn m1) then Some (m1, NoCmd, fs) else None)
         else Some (m, NoCmd, fs))
      else if k = ''['' \<or> k = ''{'' then
        (if cursorColumn m > 0 then moveTask e fs (cursorColumn m - 1) m
         else Some (m, NoCmd, fs))
      else if k = '']'' \<or> k = ''}'' then
        (if cursorColumn m < int (length (Columns (board m))) - 1
         then moveTask e fs (cursorColumn m + 1) m
         else Some (m, NoCmd, fs))
      else Some (m, NoCmd, fs))"

text \<open>A window resize (lines 535-563): the division panics on a board with no column,
  and the loop over the three viewports on one with fewer than three.\<close>

definition updateWindowSize :: "files \<Rightarrow> int \<Rightarrow> int \<Rightarrow> model \<Rightarrow> outcome" where
  "updateWindowSize fs w h m =
     (let m1 = m\<lparr>width := w, height := h\<rparr>
      in if length (Columns (board m1)) = 0 then None
         else if list_all (updateViewportContent m1) [0, 1, 2] then Some (m1, NoCmd, fs)
         else None)"

definition Update :: "widget \<Rightarrow> env \<Rightarrow> files \<Rightarrow> Msg \<Rightarrow> model \<Rightarrow> outcome" where
  "Update ti e fs msg m =
     (case msg of
        KeyMsg k \<Rightarrow>
          if dialogType m = DeleteDialog then updateDeleteDialog e fs k m
          else if inputMode m then updateInput ti e fs k m
          else updateBrowsing e fs k m
      | WindowSizeMsg w h \<Rightarrow> updateWindowSize fs w h m
      | OtherMsg \<Rightarrow> Some (m, NoCmd, fs))"

section \<open>The transition function of the second source file (lines 171-333)\<close>

text \<open>
  The second source file of the repository is the same program without the delete
  confirmation, the edit dialog, the two input sub-modes and the viewports. Its
  \<^verbatim>\<open>model\<close> has the fields of the record above except \<^verbatim>\<open>inputState\<close>,
  \<^verbatim>\<open>dialogType\<close> and \<^verbatim>\<open>editingTask\<close>; its functions are embedded on the same record,
  never read those three fields and leave them as they are. \<^verbatim>\<open>loadBoard\<close>,
  \<^verbatim>\<open>saveBoard\<close>, \<^verbatim>\<open>max\<close> and \<^verbatim>\<open>min\<close> are the same text in both files. The names of
  this file's functions end in \<open>0\<close>.

  Its \<^verbatim>\<open>Update\<close> switches on the key first and tests \<^verbatim>\<open>m.inputMode\<close> inside each case.
  A case that does not return reaches the end of the function (\<open>tail0\<close>, lines 326-332),
  where a model in input mode hands the message to the text input.
\<close>

definition tail0 :: "widget \<Rightarrow> Msg \<Rightarrow> files \<Rightarrow> model \<Rightarrow> outcome" where
  "tail0 ti msg fs m = (if inputMode m then forward ti msg fs m else Some (m, NoCmd, fs))"

text \<open>The \<^verbatim>\<open>enter\<close> key (lines 186-205).\<close>

definition commitInput0 :: "env \<Rightarrow> files \<Rightarrow> model \<Rightarrow> (model \<times> files) option" where
  "commitInput0 e fs m =
     (if inputMode m then
        (if Value (textInput m) \<noteq> [] then
           (let l = incr (lastID m);
                newTask = \<lparr>ID = l, Title = Value (textInput m), Description = [],
                           CreatedAt = now e\<rparr>
            in case at (Columns (board m)) (cursorColumn m) of
                 None \<Rightarrow> None
               | Some col \<Rightarrow>
                   Some (persist e fs
                     (m\<lparr>lastID := l,
                        board := setTasks (board m) (nat (cursorColumn m)) (Tasks col @ [newTask]),
                        textInput := Reset (textInput m), inputMode := False\<rparr>)))
         else Some (m\<lparr>inputMode := False\<rparr>, fs))
      else Some (m, fs))"

text \<open>The \<^verbatim>\<open>d\<close> key (lines 213-226): the task is removed at once.\<close>

definition deleteKey0 :: "env \<Rightarrow> files \<Rightarrow> model \<Rightarrow> (model \<times> files) option" where
  "deleteKey0 e fs m =
     (if \<not> inputMode m \<and> length (Columns (board m)) > 0 then
        (case at (Columns (board m)) (cursorColumn m) of
           None \<Rightarrow> None
         | Some col \<Rightarrow>
             if length (Tasks col) > 0 then
               (case removeUnderCursor m col of
                  None \<Rightarrow> None
                | Some (m1, ts) \<Rightarrow> Some (persist e fs m1))
             else Some (m, fs))
      else Some (m, fs))"

text \<open>Moving the task under the cursor to the column at \<open>dst\<close> (lines 269-290 and
  296-317).\<close>

definition moveTask0 :: "env \<Rightarrow> files \<Rightarrow> int \<Rightarrow> model \<Rightarrow> (model \<times> files) option" where
  "moveTask0 e fs dst m =
     (case at (Columns (board m)) (cursorColumn m) of
        None \<Rightarrow> None
      | Some srcCol \<Rightarrow>
          if length (Tasks srcCol) > 0 then
            (case at (Columns (board m)) dst of
               None \<Rightarrow> None
             | Some destCol \<Rightarrow>
                 (case at (Tasks srcCol) (cursorTask m) of
                    None \<Rightarrow> None
                  | Some task \<Rightarrow>
                      (case removeUnderCursor m srcCol of
                         None \<Rightarrow> None
                       | Some (m1, ts) \<Rightarrow>
                           (let m2 = m1\<lparr>board := setTasks (board m1) (nat dst)
                                                     (Tasks destCol @ [task])\<rparr>;
                                m3 = m2\<lparr>cursorColumn := dst,
                                         cursorTask := int (length (Tasks destCol @ [task])) - 1\<rparr>
                            in Some (persist e fs m3)))))
          else Some (m, fs))"

text \<open>The cases of the key \<^verbatim>\<open>switch\<close> that do not return (lines 186-319).\<close>

definition keySwitch0 :: "env \<Rightarrow> files \<Rightarrow> string \<Rightarrow> model \<Rightarrow> (model \<times> files) option" where
  "keySwitch0 e fs k m =
     (if k = ''enter'' then commitInput0 e fs m
      else if k = ''d'' then deleteKey0 e fs m
      else if k = ''esc'' then
        Some (if inputMode m then m\<lparr>inputMode := False, textInput := Reset (textInput m)\<rparr>
              else m, fs)
      else if k = ''up'' \<or> k = ''k'' then
        (if \<not> inputMode m then
           (case at (Columns (board m)) (cursorColumn m) of
              None \<Rightarrow> None
            | Some col \<Rightarrow>
                Some (if length (Tasks col) > 0
                      then m\<lparr>cursorTask := max 0 (cursorTask m - 1)\<rparr> else m, fs))
         else Some (m, fs))
      else if k = ''down'' \<or> k = ''j'' then
        (if \<not> inputMode m then
           (case at (Columns (board m)) (cursorColumn m) of
              None \<Rightarrow> None
            | Some col \<Rightarrow>
                Some (if length (Tasks col) > 0
                      then m\<lparr>cursorTask := min (int (length (Tasks col)) - 1) (cursorTask m + 1)\<rparr>
                      else m, fs))
         else Some (m, fs))
      else if k = ''left'' \<or> k = ''h'' then
        Some (if \<not> inputMode m \<and> cursorColumn m > 0
              then m\<lparr>cursorColumn := cursorColumn m - 1, cursorTask := 0\<rparr> else m, fs)
      else if k = ''right'' \<or> k = ''l'' then
        Some (if \<not> inputMode m \<and> cursorColumn m < int (length (Columns (board m))) - 1
              then m\<lparr>cursorColumn := cursorColumn m + 1, cursorTask := 0\<rparr> else m, fs)
      else if k = ''['' \<or> k = ''{'' then
        (if \<not> inputMode m \<and> cursorColumn m > 0 then moveTask0 e fs (cursorColumn m - 1) m
         else Some (m, fs))
      else if k = '']'' \<or> k = ''}'' then
        (if \<not> inputMode m \<and> cursorColumn m < int (length (Columns (board m))) - 1
         then moveTask0 e fs (cursorColumn m + 1) m
         else Some (m, fs))
      else Some (m, fs))"

definition Update0 :: "widget \<Rightarrow> env \<Rightarrow> files \<Rightarrow> Msg \<Rightarrow> model \<Rightarrow> outcome" where
  "Update0 ti e fs msg m =
     (case msg of
        KeyMsg k \<Rightarrow>
          if k = ''ctrl+c'' \<or> k = ''q'' then quitKey e fs m
          else if k = ''?'' then Some (m\<lparr>showHelp := \<not> showHelp m\<rparr>, NoCmd, fs)
          else if k = ''a'' \<and> \<not> inputMode m then Some (m\<lparr>inputMode := True\<rparr>, Blink, fs)
          else (case keySwitch0 e fs k m of
                  None \<Rightarrow> None
                | Some (m1, fs') \<Rightarrow> tail0 ti msg fs' m1)
      | WindowSizeMsg w h \<Rightarrow> tail0 ti msg fs (m\<lparr>width := w, height := h\<rparr>)
      | OtherMsg \<Rightarrow> tail0 ti msg fs m)"

text \<open>\<^verbatim>\<open>initialModel\<close> of the second file builds the same model and loads the same way.\<close>

section \<open>Running the program\<close>

text \<open>
  The runtime hands the messages to \<open>Update\<close> one at a time, each with the environment
  of its moment, and stops after \<^verbatim>\<open>tea.Quit\<close>. \<open>run u\<close> does so for a transition
  function \<open>u\<close>; it is \<open>None\<close> when a transition panics.
\<close>

fun run :: "(env \<Rightarrow> files \<Rightarrow> Msg \<Rightarrow> model \<Rightarrow> outcome) \<Rightarrow> (env \<times> Msg) list \<Rightarrow> files \<Rightarrow> model
    \<Rightarrow> (model \<times> files) option" where
  "run u [] fs m = Some (m, fs)"
| "run u ((e, msg) # rest) fs m =
     (case u e fs msg m of
        None \<Rightarrow> None
      | Some (m1, c, fs1) \<Rightarrow> if c = Quit then Some (m1, fs1) else run u rest fs1 m1)"

text \<open>A model of the text input for concrete runs: a key that is a single character
  is inserted at the end of the buffer (where the cursor is after \<^verbatim>\<open>Reset\<close> and
  \<^verbatim>\<open>SetValue\<close>), \<^verbatim>\<open>backspace\<close> deletes the last character, and nothing else changes the
  buffer.\<close>

definition typing :: widget where
  "typing msg t =
     (case msg of
        KeyMsg k \<Rightarrow>
          if k = ''backspace'' then (t\<lparr>Value := butlast (Value t)\<rparr>, NoCmd)
          else if length k = 1 then (t\<lparr>Value := Value t @ k\<rparr>, NoCmd)
          else (t, NoCmd)
      | _ \<Rightarrow> (t, NoCmd))"

section \<open>States and properties\<close>

text \<open>The board of the data model has exactly three columns.\<close>

definition three_columns :: "model \<Rightarrow> bool" where
  "three_columns m = (length (Columns (board m)) = 3)"

text \<open>The cursor invariant of the data model: the column index is one of the three
  columns, and the task index is a row of that column, or 0 when the column is empty.\<close>

definition cursor_ok :: "model \<Rightarrow> bool" where
  "cursor_ok m =
     (0 \<le> cursorColumn m \<and> cursorColumn m < 3 \<and> 0 \<le> cursorTask m \<and>
      cursorTask m < max 1 (int (length (Tasks (Columns (board m) ! nat (cursorColumn m))))))"

text \<open>The states in which \<open>Update\<close> dispatches a key as a browsing command: no delete
  confirmation is open and the program is not in input mode.\<close>

definition browsing :: "model \<Rightarrow> bool" where
  "browsing m = (dialogType m \<noteq> DeleteDialog \<and> \<not> inputMode m)"

text \<open>Concrete environments and states: a working file system and one that refuses
  to open files, the model a first start builds, and a board with three tasks.\<close>

definition e0 :: env where
  "e0 = \<lparr>now = RFC3339 ''2024-05-01T10:00:00Z'', fault = False\<rparr>"

definition e_fault :: env where
  "e_fault = \<lparr>now = RFC3339 ''2024-05-01T10:00:00Z'', fault = True\<rparr>"

definition kanban_json :: string where
  "kanban_json = ''/home/u/.kanban.json''"

definition start :: model where
  "start = initialModel e0 Map.empty kanban_json"

definition task1 :: Task where
  "task1 = \<lparr>ID = 1, Title = ''Write spec'', Description = [],
            CreatedAt = RFC3339 ''2024-04-01T09:00:00Z''\<rparr>"

definition task2 :: Task where
  "task2 = \<lparr>ID = 2, Title = ''Review'', Description = [],
            CreatedAt = RFC3339 ''2024-04-02T09:00:00Z''\<rparr>"

definition task3 :: Task where
  "task3 = \<lparr>ID = 3, Title = ''Ship'', Description = [],
            CreatedAt = RFC3339 ''2024-04-03T09:00:00Z''\<rparr>"

definition demo_board :: KanbanBoard where
  "demo_board = \<lparr>Columns =
     [\<lparr>ColumnID = 1, ColumnTitle = ''To Do'', Tasks = [task1, task2]\<rparr>,
      \<lparr>ColumnID = 2, ColumnTitle = ''In Progress'', Tasks = [task3]\<rparr>,
      \<lparr>ColumnID = 3, ColumnTitle = ''Done'', Tasks = []\<rparr>]\<rparr>"

definition demo :: model where
  "demo = \<lparr>board = demo_board, cursorColumn = 0, cursorTask = 1,
            textInput = \<lparr>Value = []\<rparr>, inputMode = False, inputState = NormalMode,
            width = 80, height = 24, err = None, savePath = kanban_json, lastID = 3,
            showTaskInput = False, showHelp = True, dialogType = NoDialog,
            editingTask = None\<rparr>"

text \<open>The input dialog in its two sub-modes.\<close>

definition normal_entry :: "model \<Rightarrow> bool" where
  "normal_entry m = (dialogType m \<noteq> DeleteDialog \<and> inputMode m \<and> inputState m = NormalMode)"

definition insert_entry :: "model \<Rightarrow> bool" where
  "insert_entry m = (dialogType m \<noteq> DeleteDialog \<and> inputMode m \<and> inputState m = InsertMode)"

text \<open>The demo board after the keys \<^verbatim>\<open>a\<close>, \<^verbatim>\<open>h\<close>, \<^verbatim>\<open>esc\<close>: the dialog for a new task,
  in normal mode, with \<^verbatim>\<open>h\<close> in the buffer.\<close>

definition typing_a_task :: model where
  "typing_a_task = demo\<lparr>inputMode := True, inputState := NormalMode,
                         textInput := \<lparr>Value = ''h''\<rparr>\<rparr>"

text \<open>The input dialog for a new task: input mode with no task bound for editing.\<close>

definition adding_new :: "model \<Rightarrow> bool" where
  "adding_new m =
     (dialogType m \<noteq> DeleteDialog \<and> inputMode m \<and>
      \<not> (dialogType m = EditDialog \<and> editingTask m \<noteq> None))"

text \<open>The demo board after the keys \<^verbatim>\<open>a\<close> and space: the dialog for a new task with one
  blank in the buffer.\<close>

definition blank_title :: model where
  "blank_title = demo\<lparr>inputMode := True, inputState := InsertMode,
                       textInput := \<lparr>Value = '' ''\<rparr>\<rparr>"

text \<open>The demo board with the delete confirmation open, and with the edit dialog open
  on the task under the cursor after its title has been deleted from the buffer.\<close>

definition confirming :: model where
  "confirming = demo\<lparr>dialogType := DeleteDialog\<rparr>"

definition editing_blank :: model where
  "editing_blank = demo\<lparr>dialogType := EditDialog, editingTask := Some (0, 1),
                         textInput := \<lparr>Value = []\<rparr>, inputMode := True,
                         inputState := InsertMode\<rparr>"

text \<open>The number of tasks on the whole board.\<close>

definition count_tasks :: "KanbanBoard \<Rightarrow> nat" where
  "count_tasks b = sum_list (map (\<lambda>col. length (Tasks col)) (Columns b))"

text \<open>A transition that does not panic and ends in a model with three columns and a
  valid cursor.\<close>

definition inv_outcome :: "outcome \<Rightarrow> bool" where
  "inv_outcome r =
     (case r of None \<Rightarrow> False | Some (m', c, fs') \<Rightarrow> three_columns m' \<and> cursor_ok m')"

text \<open>The ids of the tasks on a board. \<open>ids_bounded\<close>: no id on the board is above the
  counter, as after \<^verbatim>\<open>loadBoard\<close> and after every add. \<open>id_step\<close>: from \<open>m\<close> to \<open>m'\<close> the
  counter has not gone down and every id on the board of \<open>m'\<close> either was on the board of
  \<open>m\<close> or lies above the counter of \<open>m\<close>. \<open>ids_outcome\<close>: a transition that returns is
  such a step and advances the counter by one at most.\<close>

definition task_ids :: "KanbanBoard \<Rightarrow> int list" where
  "task_ids b = concat (map (\<lambda>col. map ID (Tasks col)) (Columns b))"

definition ids_bounded :: "model \<Rightarrow> bool" where
  "ids_bounded m = (\<forall>j \<in> set (task_ids (board m)). j \<le> lastID m)"

definition id_step :: "model \<Rightarrow> model \<Rightarrow> bool" where
  "id_step m m' =
     (lastID m \<le> lastID m' \<and>
      (\<forall>j \<in> set (task_ids (board m')).
         j \<in> set (task_ids (board m)) \<or> (lastID m < j \<and> j \<le> lastID m')))"

definition ids_outcome :: "model \<Rightarrow> outcome \<Rightarrow> bool" where
  "ids_outcome m r =
     (case r of None \<Rightarrow> True
      | Some (m', c, fs') \<Rightarrow> id_step m m' \<and> lastID m' \<le> lastID m + 1)"



section \<open>Basic facts\<close>

lemma start_eq:
  "start = \<lparr>board = default_board, cursorColumn = 0, cursorTask = 0,
            textInput = \<lparr>Value = []\<rparr>, inputMode = False, inputState = NormalMode,
            width = 0, height = 0, err = None, savePath = kanban_json, lastID = 0,
            showTaskInput = False, showHelp = True, dialogType = NoDialog,
            editingTask = None\<rparr>"
  by (simp add: start_def initialModel_def loadBoard_def e0_def)

lemma three_columns_nonempty: "three_columns m \<Longrightarrow> Columns (board m) \<noteq> []"
  by (auto simp: three_columns_def)

lemma saveBoard_fault: "fault e \<Longrightarrow> saveBoard e fs m = (Some PathError, fs)"
  by (simp add: saveBoard_def WriteFile_def)

lemma saveBoard_ok:
  "\<not> fault e \<Longrightarrow>
   saveBoard e fs m = (None, fs(savePath m \<mapsto> Document (marshal_KanbanBoard (board m))))"
  by (simp add: saveBoard_def WriteFile_def)

lemma quitKey_fault:
  "fault e \<Longrightarrow> quitKey e fs m = Some (m\<lparr>err := Some PathError\<rparr>, NoCmd, fs)"
  by (simp add: quitKey_def saveBoard_fault)

lemma quit_dispatch:
  "browsing m \<Longrightarrow> k = ''q'' \<or> k = ''ctrl+c'' \<Longrightarrow> Update ti e fs (KeyMsg k) m = quitKey e fs m"
  by (erule disjE) (simp_all add: Update_def updateBrowsing_def browsing_def)

lemma quit_dispatch0:
  "k = ''q'' \<or> k = ''ctrl+c'' \<Longrightarrow> Update0 ti e fs (KeyMsg k) m = quitKey e fs m"
  by (erule disjE) (simp_all add: Update0_def)

lemma commitInput_inputState:
  "commitInput e fs (m\<lparr>inputState := s\<rparr>) = commitInput e fs m"
  by (simp add: commitInput_def Let_def del: not_None_eq split: option.splits)

lemma normal_entry_dispatch:
  "normal_entry m \<Longrightarrow> Update ti e fs (KeyMsg k) m = updateInput ti e fs k m"
  by (simp add: normal_entry_def Update_def)

lemma insert_entry_dispatch:
  "insert_entry m \<Longrightarrow> Update ti e fs (KeyMsg k) m = updateInput ti e fs k m"
  by (simp add: insert_entry_def Update_def)

lemma normal_entry_other:
  assumes "normal_entry m" and "k \<noteq> ''i''" "k \<noteq> ''esc''" "k \<noteq> ''ctrl+c''" "k \<noteq> ''enter''"
    "k \<noteq> ''q''" "k \<noteq> ''?''"
  shows "Update ti e fs (KeyMsg k) m = forward ti (KeyMsg k) fs m"
  using assms by (simp add: normal_entry_dispatch updateInput_def normal_entry_def)

lemma insert_entry_other:
  assumes "insert_entry m" and "k \<noteq> ''esc''" "k \<noteq> ''enter''"
  shows "Update ti e fs (KeyMsg k) m = forward ti (KeyMsg k) fs m"
  using assms by (simp add: insert_entry_dispatch updateInput_def insert_entry_def)

lemma reach_typing:
  "run (Update typing) [(e0, KeyMsg ''a''), (e0, KeyMsg ''h''), (e0, KeyMsg ''esc'')] Map.empty demo
     = Some (typing_a_task, Map.empty)"
  by (simp add: typing_a_task_def demo_def Update_def updateBrowsing_def updateInput_def
      forward_def typing_def Reset_def)

lemma at_Some: "0 \<le> i \<Longrightarrow> i < int (length xs) \<Longrightarrow> at xs i = Some (xs ! nat i)"
  by (simp add: at_def)

lemma cursor_column_at:
  "three_columns m \<Longrightarrow> cursor_ok m \<Longrightarrow>
   at (Columns (board m)) (cursorColumn m) = Some (Columns (board m) ! nat (cursorColumn m))"
  by (simp add: at_def three_columns_def cursor_ok_def)

lemma cursor_task_in_range:
  "cursor_ok m \<Longrightarrow> Tasks (Columns (board m) ! nat (cursorColumn m)) \<noteq> [] \<Longrightarrow>
   0 \<le> cursorTask m \<and> cursorTask m < int (length (Tasks (Columns (board m) ! nat (cursorColumn m))))"
  by (cases "Tasks (Columns (board m) ! nat (cursorColumn m))") (auto simp: cursor_ok_def)

lemma removeUnderCursor_ok:
  assumes "cursor_ok m" and "col = Columns (board m) ! nat (cursorColumn m)" and "Tasks col \<noteq> []"
  shows "removeUnderCursor m col =
    Some (m\<lparr>board := setTasks (board m) (nat (cursorColumn m))
                 (take (nat (cursorTask m)) (Tasks col) @ drop (Suc (nat (cursorTask m))) (Tasks col)),
             cursorTask := (if cursorTask m \<ge> int (length (Tasks col)) - 1 \<and> cursorTask m > 0
                            then cursorTask m - 1 else cursorTask m)\<rparr>,
          take (nat (cursorTask m)) (Tasks col) @ drop (Suc (nat (cursorTask m))) (Tasks col))"
proof -
  have r: "0 \<le> cursorTask m \<and> cursorTask m < int (length (Tasks col))"
    using assms cursor_task_in_range by simp
  then have l: "int (length (take (nat (cursorTask m)) (Tasks col) @ drop (Suc (nat (cursorTask m))) (Tasks col)))
      = int (length (Tasks col)) - 1"
    by (simp add: min_def) linarith
  show ?thesis
    using r l by (simp add: removeUnderCursor_def removeAt_def Let_def)
qed

lemma persist_eq:
  "persist e fs m =
     (if fault e then (m\<lparr>err := Some PathError\<rparr>, fs)
      else (m, fs(savePath m \<mapsto> Document (marshal_KanbanBoard (board m)))))"
  by (simp add: persist_def saveBoard_def WriteFile_def)


lemma delete_dialog_dispatch:
  "dialogType m = DeleteDialog \<Longrightarrow> Update ti e fs (KeyMsg k) m = updateDeleteDialog e fs k m"
  by (simp add: Update_def)

lemma browsing_dispatch:
  "browsing m \<Longrightarrow> Update ti e fs (KeyMsg k) m = updateBrowsing e fs k m"
  by (simp add: Update_def browsing_def)

lemma delete_key_opens_dialog:
  assumes "browsing m" "three_columns m" "cursor_ok m"
    "Tasks (Columns (board m) ! nat (cursorColumn m)) \<noteq> []"
  shows "Update ti e fs (KeyMsg ''d'') m = Some (m\<lparr>dialogType := DeleteDialog\<rparr>, NoCmd, fs)"
  using assms
  by (simp add: browsing_dispatch updateBrowsing_def cursor_column_at three_columns_nonempty)

lemma confirm_deletes:
  assumes "dialogType m = DeleteDialog" "three_columns m" "cursor_ok m"
    "Tasks (Columns (board m) ! nat (cursorColumn m)) \<noteq> []" "k = ''y'' \<or> k = ''Y''"
  shows "Update ti e fs (KeyMsg k) m =
    Some (m\<lparr>board := setTasks (board m) (nat (cursorColumn m))
                 (take (nat (cursorTask m)) (Tasks (Columns (board m) ! nat (cursorColumn m))) @
                  drop (Suc (nat (cursorTask m))) (Tasks (Columns (board m) ! nat (cursorColumn m)))),
             cursorTask :=
               (if cursorTask m \<ge> int (length (Tasks (Columns (board m) ! nat (cursorColumn m)))) - 1
                   \<and> cursorTask m > 0
                then cursorTask m - 1 else cursorTask m),
             err := (if fault e then Some PathError else err m),
             dialogType := NoDialog\<rparr>,
          NoCmd,
          if fault e then fs
          else fs(savePath m \<mapsto> Document (marshal_KanbanBoard
                 (setTasks (board m) (nat (cursorColumn m))
                   (take (nat (cursorTask m)) (Tasks (Columns (board m) ! nat (cursorColumn m))) @
                    drop (Suc (nat (cursorTask m)))
                      (Tasks (Columns (board m) ! nat (cursorColumn m))))))))"
proof -
  have "updateDeleteDialog e fs k m = updateDeleteDialog e fs ''y'' m"
    using assms(5) by (auto simp: updateDeleteDialog_def)
  then show ?thesis
    using assms(1-4)
    by (simp add: delete_dialog_dispatch updateDeleteDialog_def cursor_column_at
        removeUnderCursor_ok persist_eq)
qed

lemma cancel_keeps_board:
  assumes "dialogType m = DeleteDialog"
    and "k = ''n'' \<or> k = ''N'' \<or> k = ''esc'' \<or> k = ''q'' \<or> k = ''ctrl+c''"
  shows "Update ti e fs (KeyMsg k) m = Some (m\<lparr>dialogType := NoDialog\<rparr>, NoCmd, fs)"
  using assms(2) assms(1)
  by (elim disjE) (simp_all add: delete_dialog_dispatch updateDeleteDialog_def)

lemma other_key_ignored:
  assumes "dialogType m = DeleteDialog"
    and "k \<noteq> ''y''" "k \<noteq> ''Y''" "k \<noteq> ''n''" "k \<noteq> ''N''" "k \<noteq> ''esc''" "k \<noteq> ''q''"
      "k \<noteq> ''ctrl+c''"
  shows "Update ti e fs (KeyMsg k) m = Some (m, NoCmd, fs)"
  using assms by (simp add: delete_dialog_dispatch updateDeleteDialog_def)

lemma delete_key0_removes:
  assumes "\<not> inputMode m" "three_columns m" "cursor_ok m"
    "Tasks (Columns (board m) ! nat (cursorColumn m)) \<noteq> []"
  shows "Update0 ti e fs (KeyMsg ''d'') m =
    Some (m\<lparr>board := setTasks (board m) (nat (cursorColumn m))
                 (take (nat (cursorTask m)) (Tasks (Columns (board m) ! nat (cursorColumn m))) @
                  drop (Suc (nat (cursorTask m))) (Tasks (Columns (board m) ! nat (cursorColumn m)))),
             cursorTask :=
               (if cursorTask m \<ge> int (length (Tasks (Columns (board m) ! nat (cursorColumn m)))) - 1
                   \<and> cursorTask m > 0
                then cursorTask m - 1 else cursorTask m),
             err := (if fault e then Some PathError else err m)\<rparr>,
          NoCmd,
          if fault e then fs
          else fs(savePath m \<mapsto> Document (marshal_KanbanBoard
                 (setTasks (board m) (nat (cursorColumn m))
                   (take (nat (cursorTask m)) (Tasks (Columns (board m) ! nat (cursorColumn m))) @
                    drop (Suc (nat (cursorTask m)))
                      (Tasks (Columns (board m) ! nat (cursorColumn m))))))))"
  using assms
  by (simp add: Update0_def keySwitch0_def deleteKey0_def tail0_def cursor_column_at
      three_columns_nonempty removeUnderCursor_ok persist_eq)

lemma adding_new_enter:
  "adding_new m \<Longrightarrow>
   Update ti e fs (KeyMsg ''enter'') m =
     (if Value (textInput m) \<noteq> [] then
        (case at (Columns (board m)) (cursorColumn m) of
           None \<Rightarrow> None
         | Some col \<Rightarrow>
             (case persist e fs
                (m\<lparr>lastID := incr (lastID m),
                   board := setTasks (board m) (nat (cursorColumn m))
                     (Tasks col @ [\<lparr>ID = incr (lastID m), Title = Value (textInput m),
                                    Description = [], CreatedAt = now e\<rparr>]),
                   textInput := Reset (textInput m), inputMode := False,
                   inputState := NormalMode\<rparr>) of
                (m2, fs') \<Rightarrow> Some (m2, NoCmd, fs')))
      else Some (m\<lparr>inputMode := False, inputState := NormalMode\<rparr>, NoCmd, fs))"
  by (cases "inputState m")
     (auto simp add: adding_new_def Update_def updateInput_def commitInput_def Let_def
       simp del: not_None_eq split: option.splits)

lemma input_enter0:
  "inputMode m \<Longrightarrow>
   Update0 ti e fs (KeyMsg ''enter'') m =
     (if Value (textInput m) \<noteq> [] then
        (case at (Columns (board m)) (cursorColumn m) of
           None \<Rightarrow> None
         | Some col \<Rightarrow>
             (case persist e fs
                (m\<lparr>lastID := incr (lastID m),
                   board := setTasks (board m) (nat (cursorColumn m))
                     (Tasks col @ [\<lparr>ID = incr (lastID m), Title = Value (textInput m),
                                    Description = [], CreatedAt = now e\<rparr>]),
                   textInput := Reset (textInput m), inputMode := False\<rparr>) of
                (m2, fs') \<Rightarrow> Some (m2, NoCmd, fs')))
      else Some (m\<lparr>inputMode := False\<rparr>, NoCmd, fs))"
  by (auto simp add: Update0_def keySwitch0_def commitInput0_def tail0_def Let_def persist_eq
       split: option.splits)

lemma setTasks_nth:
  "c < length (Columns b) \<Longrightarrow> Tasks (Columns (setTasks b c ts) ! c) = ts"
  by (simp add: setTasks_def)

lemma setTasks_nth_other:
  "c \<noteq> j \<Longrightarrow> Columns (setTasks b c ts) ! j = Columns b ! j"
  by (simp add: setTasks_def)

lemma setTasks_length: "length (Columns (setTasks b c ts)) = length (Columns b)"
  by (simp add: setTasks_def)

lemma reach_blank:
  "run (Update typing) [(e0, KeyMsg ''a''), (e0, KeyMsg '' '')] Map.empty demo
     = Some (blank_title, Map.empty)"
  by (simp add: blank_title_def demo_def Update_def updateBrowsing_def updateInput_def
      forward_def typing_def Reset_def)

lemma reach_blank0:
  "run (Update0 typing) [(e0, KeyMsg ''a''), (e0, KeyMsg '' '')] Map.empty demo
     = Some (blank_title\<lparr>inputState := NormalMode\<rparr>, Map.empty)"
  by (simp add: blank_title_def demo_def Update0_def keySwitch0_def tail0_def
      forward_def typing_def)

lemma reach_editing_blank:
  "run (Update typing)
     [(e0, KeyMsg ''e''), (e0, KeyMsg ''backspace''), (e0, KeyMsg ''backspace''),
      (e0, KeyMsg ''backspace''), (e0, KeyMsg ''backspace''), (e0, KeyMsg ''backspace''),
      (e0, KeyMsg ''backspace'')] Map.empty demo = Some (editing_blank, Map.empty)"
  by (simp add: editing_blank_def demo_def demo_board_def task2_def Update_def
      updateBrowsing_def updateInput_def forward_def typing_def SetValue_def at_def)

lemma moveTask_ok:
  fixes m :: model and e :: env and fs :: files and dst :: int
  defines "src \<equiv> Tasks (Columns (board m) ! nat (cursorColumn m))"
  defines "b' \<equiv> setTasks
                  (setTasks (board m) (nat (cursorColumn m))
                     (take (nat (cursorTask m)) src @ drop (Suc (nat (cursorTask m))) src))
                  (nat dst) (Tasks (Columns (board m) ! nat dst) @ [src ! nat (cursorTask m)])"
  assumes tc: "three_columns m" and co: "cursor_ok m" and ne: "src \<noteq> []"
    and d0: "0 \<le> dst" and d3: "dst < 3" and dc: "dst \<noteq> cursorColumn m"
  shows "moveTask e fs dst m =
    Some (m\<lparr>board := b', cursorColumn := dst,
            cursorTask := int (length (Tasks (Columns (board m) ! nat dst))),
            err := (if fault e then Some PathError else err m)\<rparr>,
          NoCmd,
          if fault e then fs else fs(savePath m \<mapsto> Document (marshal_KanbanBoard b')))"
    and "moveTask0 e fs dst m =
    Some (m\<lparr>board := b', cursorColumn := dst,
            cursorTask := int (length (Tasks (Columns (board m) ! nat dst))),
            err := (if fault e then Some PathError else err m)\<rparr>,
          if fault e then fs else fs(savePath m \<mapsto> Document (marshal_KanbanBoard b')))"
proof -
  have r: "0 \<le> cursorTask m \<and> cursorTask m < int (length src)"
    using co ne cursor_task_in_range [of m] by (simp add: src_def)
  have d: "at (Columns (board m)) dst = Some (Columns (board m) ! nat dst)"
    using tc d0 d3 by (simp add: at_def three_columns_def)
  have t: "at src (cursorTask m) = Some (src ! nat (cursorTask m))"
    using r by (simp add: at_def)
  have n: "nat dst \<noteq> nat (cursorColumn m)"
    using co d0 dc by (simp add: cursor_ok_def nat_eq_iff)
  have rm: "removeUnderCursor m (Columns (board m) ! nat (cursorColumn m)) =
    Some (m\<lparr>board := setTasks (board m) (nat (cursorColumn m))
                 (take (nat (cursorTask m)) src @ drop (Suc (nat (cursorTask m))) src),
             cursorTask := (if cursorTask m \<ge> int (length src) - 1 \<and> cursorTask m > 0
                            then cursorTask m - 1 else cursorTask m)\<rparr>,
          take (nat (cursorTask m)) src @ drop (Suc (nat (cursorTask m))) src)"
    using co ne removeUnderCursor_ok [of m "Columns (board m) ! nat (cursorColumn m)"]
    by (simp add: src_def)
  have s: "setTasks (setTasks (board m) (nat (cursorColumn m)) xs) (nat dst) ys
      = (setTasks (board m) (nat (cursorColumn m)) xs)
          \<lparr>Columns := (Columns (setTasks (board m) (nat (cursorColumn m)) xs))
              [nat dst := (Columns (board m) ! nat dst)\<lparr>Tasks := ys\<rparr>]\<rparr>" for xs ys
    using n by (simp add: setTasks_def)
  have v: "length (Columns (setTasks (setTasks (board m) (nat (cursorColumn m)) xs) (nat dst) ys)) = 3"
    for xs ys
    using tc by (simp add: setTasks_length three_columns_def)
  have w: "Columns (setTasks (setTasks (board m) (nat (cursorColumn m)) xs) (nat dst) ys) \<noteq> []"
    for xs ys
    using v [of xs ys] by auto
  show "moveTask e fs dst m =
    Some (m\<lparr>board := b', cursorColumn := dst,
            cursorTask := int (length (Tasks (Columns (board m) ! nat dst))),
            err := (if fault e then Some PathError else err m)\<rparr>,
          NoCmd,
          if fault e then fs else fs(savePath m \<mapsto> Document (marshal_KanbanBoard b')))"
    using tc co ne d0 d3 dc d t rm v w
    by (simp add: moveTask_def cursor_column_at persist_eq updateViewportContent_def Let_def
        b'_def cursor_ok_def flip: src_def)
  show "moveTask0 e fs dst m =
    Some (m\<lparr>board := b', cursorColumn := dst,
            cursorTask := int (length (Tasks (Columns (board m) ! nat dst))),
            err := (if fault e then Some PathError else err m)\<rparr>,
          if fault e then fs else fs(savePath m \<mapsto> Document (marshal_KanbanBoard b')))"
    using tc co ne d0 d3 dc d t rm
    by (simp add: moveTask0_def cursor_column_at persist_eq Let_def b'_def flip: src_def)
qed


lemma sum_list_update_nat:
  "k < length xs \<Longrightarrow> sum_list (xs[k := (v::nat)]) + xs ! k = sum_list xs + v"
  by (induction xs arbitrary: k) (auto split: nat.splits simp: nth_Cons)

lemma count_tasks_setTasks:
  assumes "c < length (Columns b)"
  shows "count_tasks (setTasks b c ts) + length (Tasks (Columns b ! c)) = count_tasks b + length ts"
  using assms sum_list_update_nat [of c "map (\<lambda>col. length (Tasks col)) (Columns b)" "length ts"]
  by (simp add: count_tasks_def setTasks_def map_update)

lemma count_tasks_move:
  assumes "c < length (Columns b)" and "d < length (Columns b)" and "c \<noteq> d"
    and "i < length (Tasks (Columns b ! c))"
  shows "count_tasks
           (setTasks (setTasks b c (take i (Tasks (Columns b ! c)) @
                                    drop (Suc i) (Tasks (Columns b ! c))))
              d (Tasks (Columns b ! d) @ [t])) = count_tasks b"
proof -
  let ?b1 = "setTasks b c (take i (Tasks (Columns b ! c)) @ drop (Suc i) (Tasks (Columns b ! c)))"
  have 1: "count_tasks ?b1 + length (Tasks (Columns b ! c)) =
           count_tasks b + (length (Tasks (Columns b ! c)) - 1)"
    using assms(1,4) count_tasks_setTasks [of c b] by (simp add: min_def)
  have 2: "count_tasks (setTasks ?b1 d (Tasks (Columns b ! d) @ [t])) +
             length (Tasks (Columns ?b1 ! d)) =
           count_tasks ?b1 + (length (Tasks (Columns b ! d)) + 1)"
    using assms(2) count_tasks_setTasks [of d ?b1] by (simp add: setTasks_length)
  have 3: "Columns ?b1 ! d = Columns b ! d"
    using assms(3) by (simp add: setTasks_nth_other)
  from 1 2 3 assms(4) show ?thesis by simp
qed

section \<open>The cursor invariant, transition by transition\<close>

lemma inv_outcome_Some [simp]:
  "inv_outcome (Some (m', c, fs')) = (three_columns m' \<and> cursor_ok m')"
  by (simp add: inv_outcome_def)

lemma inv_outcome_None [simp]: "\<not> inv_outcome None"
  by (simp add: inv_outcome_def)

lemma inv_frame:
  assumes "three_columns m" and "cursor_ok m"
    and "board m' = board m" and "cursorColumn m' = cursorColumn m" and "cursorTask m' = cursorTask m"
  shows "three_columns m' \<and> cursor_ok m'"
  using assms by (simp add: three_columns_def cursor_ok_def)

lemma inv_quitKey:
  "three_columns m \<Longrightarrow> cursor_ok m \<Longrightarrow> inv_outcome (quitKey e fs m)"
  by (cases "fault e")
     (simp_all add: quitKey_def saveBoard_fault saveBoard_ok three_columns_def cursor_ok_def)

lemma inv_forward:
  "three_columns m \<Longrightarrow> cursor_ok m \<Longrightarrow> inv_outcome (forward ti msg fs m)"
  by (simp add: forward_def three_columns_def cursor_ok_def split: prod.splits)

lemma persist_fields:
  "board (fst (persist e fs m)) = board m"
  "cursorColumn (fst (persist e fs m)) = cursorColumn m"
  "cursorTask (fst (persist e fs m)) = cursorTask m"
  "inputMode (fst (persist e fs m)) = inputMode m"
  by (simp_all add: persist_eq)

lemma inv_persist:
  "three_columns m \<Longrightarrow> cursor_ok m \<Longrightarrow>
   three_columns (fst (persist e fs m)) \<and> cursor_ok (fst (persist e fs m))"
  by (simp add: persist_eq three_columns_def cursor_ok_def)

lemma inv_removed:
  assumes tc: "three_columns m" and co: "cursor_ok m"
    and ne: "Tasks (Columns (board m) ! nat (cursorColumn m)) \<noteq> []"
    and m': "m' = m\<lparr>board := setTasks (board m) (nat (cursorColumn m))
                 (take (nat (cursorTask m)) (Tasks (Columns (board m) ! nat (cursorColumn m))) @
                  drop (Suc (nat (cursorTask m))) (Tasks (Columns (board m) ! nat (cursorColumn m)))),
             cursorTask :=
               (if cursorTask m \<ge> int (length (Tasks (Columns (board m) ! nat (cursorColumn m)))) - 1
                   \<and> cursorTask m > 0
                then cursorTask m - 1 else cursorTask m)\<rparr>"
  shows "three_columns m' \<and> cursor_ok m'"
proof -
  have r: "0 \<le> cursorTask m \<and>
      cursorTask m < int (length (Tasks (Columns (board m) ! nat (cursorColumn m))))"
    using co ne by (rule cursor_task_in_range)
  have c: "nat (cursorColumn m) < length (Columns (board m))"
    using tc co by (simp add: three_columns_def cursor_ok_def nat_less_iff)
  show ?thesis
    using r c tc co unfolding m'
    by (auto simp: three_columns_def cursor_ok_def setTasks_length setTasks_nth min_def)
qed

lemma inv_appended:
  assumes tc: "three_columns m" and co: "cursor_ok m"
    and b: "board m' = setTasks (board m) (nat (cursorColumn m))
                (Tasks (Columns (board m) ! nat (cursorColumn m)) @ [t])"
    and c: "cursorColumn m' = cursorColumn m" "cursorTask m' = cursorTask m"
  shows "three_columns m' \<and> cursor_ok m'"
proof -
  have "nat (cursorColumn m) < length (Columns (board m))"
    using tc co by (simp add: three_columns_def cursor_ok_def nat_less_iff)
  then show ?thesis
    using tc co b c
    by (auto simp: three_columns_def cursor_ok_def setTasks_length setTasks_nth)
qed

lemma setTitle_length: "length (Columns (setTitle b p s)) = length (Columns b)"
  by (cases p) (simp add: setTitle_def setTasks_length)

lemma setTitle_tasks_length:
  "length (Tasks (Columns (setTitle b p s) ! j)) = length (Tasks (Columns b ! j))"
proof (cases p)
  case (Pair c i)
  show ?thesis
  proof (cases "c < length (Columns b) \<and> i < length (Tasks (Columns b ! c))")
    case True
    then show ?thesis
      using Pair by (cases "j = c") (simp_all add: setTitle_def setTasks_def)
  next
    case False
    then show ?thesis using Pair by (auto simp add: setTitle_def)
  qed
qed

lemma inv_retitled:
  assumes "three_columns m" and "cursor_ok m"
    and "board m' = setTitle (board m) p s"
    and "cursorColumn m' = cursorColumn m" "cursorTask m' = cursorTask m"
  shows "three_columns m' \<and> cursor_ok m'"
  using assms
  by (simp add: three_columns_def cursor_ok_def setTitle_length setTitle_tasks_length)

lemma inv_commitInput:
  assumes tc: "three_columns m" and co: "cursor_ok m"
  shows "inv_outcome (commitInput e fs m)"
proof -
  have col: "at (Columns (board m)) (cursorColumn m) = Some (Columns (board m) ! nat (cursorColumn m))"
    using tc co by (rule cursor_column_at)
  consider (edit) "dialogType m = EditDialog \<and> editingTask m \<noteq> None"
    | (add) "\<not> (dialogType m = EditDialog \<and> editingTask m \<noteq> None)" "Value (textInput m) \<noteq> []"
    | (cancel) "\<not> (dialogType m = EditDialog \<and> editingTask m \<noteq> None)" "Value (textInput m) = []"
    by blast
  then show ?thesis
  proof cases
    case edit
    show ?thesis
      apply (subst commitInput_def)
      apply (subst if_P [OF edit])
      using inv_retitled [OF tc co, where p = "the (editingTask m)" and s = "Value (textInput m)"]
      apply (simp add: persist_eq Let_def)
      done
  next
    case add
    show ?thesis
      apply (subst commitInput_def)
      apply (subst if_not_P [OF add(1)])
      using col add(2) inv_appended [OF tc co]
      apply (simp add: persist_eq Let_def)
      done
  next
    case cancel
    show ?thesis
      apply (subst commitInput_def)
      apply (subst if_not_P [OF cancel(1)])
      using cancel(2) inv_frame [OF tc co]
      apply simp
      done
  qed
qed


lemma inv_updateDeleteDialog:
  assumes tc: "three_columns m" and co: "cursor_ok m"
  shows "inv_outcome (updateDeleteDialog e fs k m)"
proof -
  have col: "at (Columns (board m)) (cursorColumn m) = Some (Columns (board m) ! nat (cursorColumn m))"
    using tc co by (rule cursor_column_at)
  have fr: "three_columns (m\<lparr>dialogType := NoDialog\<rparr>) \<and> cursor_ok (m\<lparr>dialogType := NoDialog\<rparr>)"
    using inv_frame [OF tc co] by simp
  consider (yes) "k = ''y'' \<or> k = ''Y''"
    | (cancel) "k = ''n'' \<or> k = ''N'' \<or> k = ''esc'' \<or> k = ''q'' \<or> k = ''ctrl+c''"
    | (other) "k \<noteq> ''y''" "k \<noteq> ''Y''" "k \<noteq> ''n''" "k \<noteq> ''N''" "k \<noteq> ''esc''" "k \<noteq> ''q''"
        "k \<noteq> ''ctrl+c''"
    by blast
  then show ?thesis
  proof cases
    case yes
    have y: "updateDeleteDialog e fs k m = updateDeleteDialog e fs ''y'' m"
      using yes by (auto simp: updateDeleteDialog_def)
    show ?thesis
    proof (cases "Tasks (Columns (board m) ! nat (cursorColumn m)) = []")
      case True
      then show ?thesis
        using col fr by (subst y) (simp add: updateDeleteDialog_def)
    next
      case False
      have "three_columns (m\<lparr>board := setTasks (board m) (nat (cursorColumn m))
                 (take (nat (cursorTask m)) (Tasks (Columns (board m) ! nat (cursorColumn m))) @
                  drop (Suc (nat (cursorTask m))) (Tasks (Columns (board m) ! nat (cursorColumn m)))),
             cursorTask :=
               (if cursorTask m \<ge> int (length (Tasks (Columns (board m) ! nat (cursorColumn m)))) - 1
                   \<and> cursorTask m > 0
                then cursorTask m - 1 else cursorTask m)\<rparr>) \<and>
            cursor_ok (m\<lparr>board := setTasks (board m) (nat (cursorColumn m))
                 (take (nat (cursorTask m)) (Tasks (Columns (board m) ! nat (cursorColumn m))) @
                  drop (Suc (nat (cursorTask m))) (Tasks (Columns (board m) ! nat (cursorColumn m)))),
             cursorTask :=
               (if cursorTask m \<ge> int (length (Tasks (Columns (board m) ! nat (cursorColumn m)))) - 1
                   \<and> cursorTask m > 0
                then cursorTask m - 1 else cursorTask m)\<rparr>)"
        using inv_removed [OF tc co False] by blast
      then show ?thesis
        using col False removeUnderCursor_ok [OF co refl False]
        by (subst y) (simp add: updateDeleteDialog_def persist_eq three_columns_def cursor_ok_def)
    qed
  next
    case cancel
    then show ?thesis
      using fr by (elim disjE) (simp_all add: updateDeleteDialog_def)
  next
    case other
    then show ?thesis
      using tc co by (simp add: updateDeleteDialog_def)
  qed
qed

lemma inv_updateInput:
  assumes tc: "three_columns m" and co: "cursor_ok m"
  shows "inv_outcome (updateInput ti e fs k m)"
proof (cases "inputState m")
  case NormalMode
  consider (i) "k = ''i''" | (esc) "k = ''esc'' \<or> k = ''ctrl+c''" | (enter) "k = ''enter''"
    | (q) "k = ''q''" | (hlp) "k = ''?''"
    | (other) "k \<noteq> ''i''" "k \<noteq> ''esc''" "k \<noteq> ''ctrl+c''" "k \<noteq> ''enter''" "k \<noteq> ''q''" "k \<noteq> ''?''"
    by blast
  then show ?thesis
  proof cases
    case i
    then show ?thesis
      using NormalMode inv_frame [OF tc co] by (simp add: updateInput_def)
  next
    case esc
    then show ?thesis
      using NormalMode inv_frame [OF tc co] by (elim disjE) (simp_all add: updateInput_def)
  next
    case enter
    then show ?thesis
      using NormalMode inv_commitInput [OF tc co] by (simp add: updateInput_def)
  next
    case q
    then show ?thesis
      using NormalMode inv_quitKey [OF tc co] by (simp add: updateInput_def)
  next
    case hlp
    then show ?thesis
      using NormalMode inv_frame [OF tc co] by (simp add: updateInput_def)
  next
    case other
    then show ?thesis
      using NormalMode inv_forward [OF tc co] by (simp add: updateInput_def)
  qed
next
  case InsertMode
  consider (esc) "k = ''esc''" | (enter) "k = ''enter''" | (other) "k \<noteq> ''esc''" "k \<noteq> ''enter''"
    by blast
  then show ?thesis
  proof cases
    case esc
    then show ?thesis
      using InsertMode inv_frame [OF tc co] by (simp add: updateInput_def)
  next
    case enter
    then show ?thesis
      using InsertMode inv_commitInput [OF tc co] by (simp add: updateInput_def)
  next
    case other
    then show ?thesis
      using InsertMode inv_forward [OF tc co] by (simp add: updateInput_def)
  qed
qed


lemma inv_moved:
  assumes tc: "three_columns m" and co: "cursor_ok m"
    and ne: "Tasks (Columns (board m) ! nat (cursorColumn m)) \<noteq> []"
    and d: "0 \<le> dst" "dst < 3" "dst \<noteq> cursorColumn m"
  shows "inv_outcome (moveTask e fs dst m)"
    and "\<exists>m' fs'. moveTask0 e fs dst m = Some (m', fs') \<and> three_columns m' \<and> cursor_ok m' \<and>
           inputMode m' = inputMode m"
proof -
  let ?src = "Tasks (Columns (board m) ! nat (cursorColumn m))"
  let ?b = "setTasks (setTasks (board m) (nat (cursorColumn m))
                        (take (nat (cursorTask m)) ?src @ drop (Suc (nat (cursorTask m))) ?src))
              (nat dst) (Tasks (Columns (board m) ! nat dst) @ [?src ! nat (cursorTask m)])"
  let ?m = "m\<lparr>board := ?b, cursorColumn := dst,
              cursorTask := int (length (Tasks (Columns (board m) ! nat dst))),
              err := (if fault e then Some PathError else err m)\<rparr>"
  have len: "length (Columns (board m)) = 3"
    using tc by (simp add: three_columns_def)
  have dl: "nat dst < 3"
    using d by (simp add: nat_less_iff)
  have i: "three_columns ?m \<and> cursor_ok ?m"
    using len dl d by (simp add: three_columns_def cursor_ok_def setTasks_length setTasks_nth)
  show "inv_outcome (moveTask e fs dst m)"
    using moveTask_ok(1) [OF tc co ne d, of e fs] i by simp
  show "\<exists>m' fs'. moveTask0 e fs dst m = Some (m', fs') \<and> three_columns m' \<and> cursor_ok m' \<and>
           inputMode m' = inputMode m"
    using moveTask_ok(2) [OF tc co ne d, of e fs] i by simp
qed

lemma inv_updateBrowsing:
  assumes tc: "three_columns m" and co: "cursor_ok m"
  shows "inv_outcome (updateBrowsing e fs k m)"
proof -
  let ?col = "Columns (board m) ! nat (cursorColumn m)"
  have len: "length (Columns (board m)) = 3"
    using tc by (simp add: three_columns_def)
  have cc: "0 \<le> cursorColumn m" "cursorColumn m < 3" "0 \<le> cursorTask m"
    using co by (simp_all add: cursor_ok_def)
  have col: "at (Columns (board m)) (cursorColumn m) = Some ?col"
    using tc co by (rule cursor_column_at)
  have task: "Tasks ?col \<noteq> [] \<Longrightarrow> at (Tasks ?col) (cursorTask m) = Some (Tasks ?col ! nat (cursorTask m))"
    using cursor_task_in_range [OF co] by (simp add: at_def)
  have rng: "Tasks ?col \<noteq> [] \<Longrightarrow> cursorTask m < int (length (Tasks ?col))"
    using cursor_task_in_range [OF co] by simp
  have same: "three_columns m \<and> cursor_ok m"
    using tc co by simp
  have nn: "Columns (board m) \<noteq> []"
    using tc by (rule three_columns_nonempty)
  consider (quit) "k = ''ctrl+c'' \<or> k = ''q''" | (hlp) "k = ''?''" | (a) "k = ''a''"
    | (n) "k = ''n''" | (e) "k = ''e''" | (d) "k = ''d''" | (up) "k = ''up'' \<or> k = ''k''"
    | (down) "k = ''down'' \<or> k = ''j''" | (left) "k = ''left'' \<or> k = ''h''"
    | (right) "k = ''right'' \<or> k = ''l''" | (mleft) "k = ''['' \<or> k = ''{''"
    | (mright) "k = '']'' \<or> k = ''}''"
    | (other) "k \<noteq> ''ctrl+c''" "k \<noteq> ''q''" "k \<noteq> ''?''" "k \<noteq> ''a''" "k \<noteq> ''n''" "k \<noteq> ''e''"
        "k \<noteq> ''d''" "k \<noteq> ''up''" "k \<noteq> ''k''" "k \<noteq> ''down''" "k \<noteq> ''j''" "k \<noteq> ''left''"
        "k \<noteq> ''h''" "k \<noteq> ''right''" "k \<noteq> ''l''" "k \<noteq> ''[''" "k \<noteq> ''{''" "k \<noteq> '']''"
        "k \<noteq> ''}''"
    by blast
  then show ?thesis
  proof cases
    case quit
    then show ?thesis
      using inv_quitKey [OF tc co, of e fs] by (elim disjE) (simp_all add: updateBrowsing_def)
  next
    case hlp
    then show ?thesis
      using inv_frame [OF tc co] by (simp add: updateBrowsing_def)
  next
    case a
    then show ?thesis
      using inv_frame [OF tc co] by (simp add: updateBrowsing_def)
  next
    case n
    then show ?thesis
      using inv_frame [OF tc co] by (simp add: updateBrowsing_def)
  next
    case e
    then show ?thesis
      using inv_frame [OF tc co] col task len same
      by (cases "Tasks ?col = []") (simp_all add: updateBrowsing_def)
  next
    case d
    then show ?thesis
      using inv_frame [OF tc co] col len same
      by (cases "Tasks ?col = []") (simp_all add: updateBrowsing_def)
  next
    case up
    have u: "updateBrowsing e fs k m = updateBrowsing e fs ''up'' m"
      using up by (elim disjE) (simp_all add: updateBrowsing_def)
    have "inv_outcome (updateBrowsing e fs ''up'' m)"
      using col len same cc rng nn
      by (cases "Tasks ?col = []")
         (simp_all add: updateBrowsing_def updateViewportContent_def Let_def three_columns_def
           cursor_ok_def)
    then show ?thesis by (simp only: u)
  next
    case down
    have u: "updateBrowsing e fs k m = updateBrowsing e fs ''down'' m"
      using down by (elim disjE) (simp_all add: updateBrowsing_def)
    have "inv_outcome (updateBrowsing e fs ''down'' m)"
      using col len same cc rng nn
      by (cases "Tasks ?col = []")
         (simp_all add: updateBrowsing_def updateViewportContent_def Let_def three_columns_def
           cursor_ok_def)
    then show ?thesis by (simp only: u)
  next
    case left
    have u: "updateBrowsing e fs k m = updateBrowsing e fs ''left'' m"
      using left by (elim disjE) (simp_all add: updateBrowsing_def)
    have "inv_outcome (updateBrowsing e fs ''left'' m)"
      using len same cc nn
      by (auto simp add: updateBrowsing_def updateViewportContent_def Let_def three_columns_def
           cursor_ok_def)
    then show ?thesis by (simp only: u)
  next
    case right
    have u: "updateBrowsing e fs k m = updateBrowsing e fs ''right'' m"
      using right by (elim disjE) (simp_all add: updateBrowsing_def)
    have "inv_outcome (updateBrowsing e fs ''right'' m)"
      using len same cc nn
      by (auto simp add: updateBrowsing_def updateViewportContent_def Let_def three_columns_def
           cursor_ok_def)
    then show ?thesis by (simp only: u)
  next
    case mleft
    have u: "updateBrowsing e fs k m =
        (if cursorColumn m > 0 then moveTask e fs (cursorColumn m - 1) m else Some (m, NoCmd, fs))"
      using mleft by (elim disjE) (simp_all add: updateBrowsing_def)
    show ?thesis
    proof (cases "cursorColumn m > 0")
      case True
      show ?thesis
      proof (cases "Tasks ?col = []")
        case True
        then show ?thesis
          using u col same by (simp add: moveTask_def)
      next
        case False
        then show ?thesis
          using u True cc inv_moved(1) [OF tc co False, of "cursorColumn m - 1" e fs] by simp
      qed
    next
      case False
      then show ?thesis using u same by simp
    qed
  next
    case mright
    have u: "updateBrowsing e fs k m =
        (if cursorColumn m < 2 then moveTask e fs (cursorColumn m + 1) m else Some (m, NoCmd, fs))"
      using mright len by (elim disjE) (simp_all add: updateBrowsing_def)
    show ?thesis
    proof (cases "cursorColumn m < 2")
      case True
      show ?thesis
      proof (cases "Tasks ?col = []")
        case True
        then show ?thesis
          using u col same by (simp add: moveTask_def)
      next
        case False
        then show ?thesis
          using u True cc inv_moved(1) [OF tc co False, of "cursorColumn m + 1" e fs] by simp
      qed
    next
      case False
      then show ?thesis using u same by simp
    qed
  next
    case other
    then show ?thesis
      using same by (simp add: updateBrowsing_def)
  qed
qed

lemma inv_updateWindowSize:
  assumes tc: "three_columns m" and co: "cursor_ok m"
  shows "inv_outcome (updateWindowSize fs w h m)"
  using assms three_columns_nonempty [OF tc]
  by (simp add: updateWindowSize_def updateViewportContent_def Let_def three_columns_def
      cursor_ok_def)

lemma inv_Update:
  assumes tc: "three_columns m" and co: "cursor_ok m"
  shows "inv_outcome (Update ti e fs msg m)"
  using inv_updateDeleteDialog [OF tc co] inv_updateInput [OF tc co] inv_updateBrowsing [OF tc co]
    inv_updateWindowSize [OF tc co] tc co
  by (cases msg) (simp_all add: Update_def)


lemma inv_tail0:
  "three_columns m \<Longrightarrow> cursor_ok m \<Longrightarrow> inv_outcome (tail0 ti msg fs m)"
  using inv_forward [of m ti msg fs] by (simp add: tail0_def)

lemma inv_commitInput0:
  assumes tc: "three_columns m" and co: "cursor_ok m"
  shows "\<exists>m' fs'. commitInput0 e fs m = Some (m', fs') \<and> three_columns m' \<and> cursor_ok m'"
proof -
  have col: "at (Columns (board m)) (cursorColumn m) = Some (Columns (board m) ! nat (cursorColumn m))"
    using tc co by (rule cursor_column_at)
  show ?thesis
    using col inv_appended [OF tc co] inv_frame [OF tc co] tc co
    by (simp add: commitInput0_def persist_eq Let_def)
qed

lemma inv_deleteKey0:
  assumes tc: "three_columns m" and co: "cursor_ok m"
  shows "\<exists>m' fs'. deleteKey0 e fs m = Some (m', fs') \<and> three_columns m' \<and> cursor_ok m'"
proof -
  have col: "at (Columns (board m)) (cursorColumn m) = Some (Columns (board m) ! nat (cursorColumn m))"
    using tc co by (rule cursor_column_at)
  show ?thesis
  proof (cases "Tasks (Columns (board m) ! nat (cursorColumn m)) = []")
    case True
    then show ?thesis
      using col tc co by (simp add: deleteKey0_def)
  next
    case False
    then show ?thesis
      using col tc co removeUnderCursor_ok [OF co refl False] inv_removed [OF tc co False refl]
      by (simp add: deleteKey0_def persist_eq three_columns_def cursor_ok_def)
  qed
qed

lemma inv_keySwitch0:
  assumes tc: "three_columns m" and co: "cursor_ok m"
  shows "\<exists>m' fs'. keySwitch0 e fs k m = Some (m', fs') \<and> three_columns m' \<and> cursor_ok m'"
proof -
  let ?col = "Columns (board m) ! nat (cursorColumn m)"
  have len: "length (Columns (board m)) = 3"
    using tc by (simp add: three_columns_def)
  have cc: "0 \<le> cursorColumn m" "cursorColumn m < 3" "0 \<le> cursorTask m"
    using co by (simp_all add: cursor_ok_def)
  have col: "at (Columns (board m)) (cursorColumn m) = Some ?col"
    using tc co by (rule cursor_column_at)
  have rng: "Tasks ?col \<noteq> [] \<Longrightarrow> cursorTask m < int (length (Tasks ?col))"
    using cursor_task_in_range [OF co] by simp
  have same: "three_columns m \<and> cursor_ok m"
    using tc co by simp
  consider (enter) "k = ''enter''" | (d) "k = ''d''" | (esc) "k = ''esc''"
    | (up) "k = ''up'' \<or> k = ''k''"
    | (down) "k = ''down'' \<or> k = ''j''" | (left) "k = ''left'' \<or> k = ''h''"
    | (right) "k = ''right'' \<or> k = ''l''" | (mleft) "k = ''['' \<or> k = ''{''"
    | (mright) "k = '']'' \<or> k = ''}''"
    | (other) "k \<noteq> ''enter''" "k \<noteq> ''esc''"
        "k \<noteq> ''d''" "k \<noteq> ''up''" "k \<noteq> ''k''" "k \<noteq> ''down''" "k \<noteq> ''j''" "k \<noteq> ''left''"
        "k \<noteq> ''h''" "k \<noteq> ''right''" "k \<noteq> ''l''" "k \<noteq> ''[''" "k \<noteq> ''{''" "k \<noteq> '']''"
        "k \<noteq> ''}''"
    by blast
  then show ?thesis
  proof cases
    case enter
    then show ?thesis
      using inv_commitInput0 [OF tc co, of e fs] by (simp add: keySwitch0_def)
  next
    case d
    then show ?thesis
      using inv_deleteKey0 [OF tc co, of e fs] by (simp add: keySwitch0_def)
  next
    case esc
    then show ?thesis
      using inv_frame [OF tc co] same by (simp add: keySwitch0_def)
  next
    case up
    have u: "keySwitch0 e fs k m = keySwitch0 e fs ''up'' m"
      using up by (elim disjE) (simp_all add: keySwitch0_def)
    have "\<exists>m' fs'. keySwitch0 e fs ''up'' m = Some (m', fs') \<and> three_columns m' \<and> cursor_ok m'"
      using col len same cc rng
      by (cases "Tasks ?col = []") (auto simp add: keySwitch0_def three_columns_def cursor_ok_def)
    then show ?thesis by (simp only: u)
  next
    case down
    have u: "keySwitch0 e fs k m = keySwitch0 e fs ''down'' m"
      using down by (elim disjE) (simp_all add: keySwitch0_def)
    have "\<exists>m' fs'. keySwitch0 e fs ''down'' m = Some (m', fs') \<and> three_columns m' \<and> cursor_ok m'"
      using col len same cc rng
      by (cases "Tasks ?col = []") (auto simp add: keySwitch0_def three_columns_def cursor_ok_def)
    then show ?thesis by (simp only: u)
  next
    case left
    have u: "keySwitch0 e fs k m = keySwitch0 e fs ''left'' m"
      using left by (elim disjE) (simp_all add: keySwitch0_def)
    have "\<exists>m' fs'. keySwitch0 e fs ''left'' m = Some (m', fs') \<and> three_columns m' \<and> cursor_ok m'"
      using len same cc
      by (auto simp add: keySwitch0_def three_columns_def cursor_ok_def)
    then show ?thesis by (simp only: u)
  next
    case right
    have u: "keySwitch0 e fs k m = keySwitch0 e fs ''right'' m"
      using right by (elim disjE) (simp_all add: keySwitch0_def)
    have "\<exists>m' fs'. keySwitch0 e fs ''right'' m = Some (m', fs') \<and> three_columns m' \<and> cursor_ok m'"
      using len same cc
      by (auto simp add: keySwitch0_def three_columns_def cursor_ok_def)
    then show ?thesis by (simp only: u)
  next
    case mleft
    have u: "keySwitch0 e fs k m =
        (if \<not> inputMode m \<and> cursorColumn m > 0 then moveTask0 e fs (cursorColumn m - 1) m
         else Some (m, fs))"
      using mleft by (elim disjE) (simp_all add: keySwitch0_def)
    show ?thesis
    proof (cases "\<not> inputMode m \<and> cursorColumn m > 0")
      case True
      show ?thesis
      proof (cases "Tasks ?col = []")
        case True
        then show ?thesis
          using u col same by (simp add: moveTask0_def)
      next
        case False
        then show ?thesis
          using u True cc inv_moved(2) [OF tc co False, of "cursorColumn m - 1" e fs] by auto
      qed
    next
      case False
      then show ?thesis using u same by auto
    qed
  next
    case mright
    have u: "keySwitch0 e fs k m =
        (if \<not> inputMode m \<and> cursorColumn m < 2 then moveTask0 e fs (cursorColumn m + 1) m
         else Some (m, fs))"
      using mright len by (elim disjE) (simp_all add: keySwitch0_def)
    show ?thesis
    proof (cases "\<not> inputMode m \<and> cursorColumn m < 2")
      case True
      show ?thesis
      proof (cases "Tasks ?col = []")
        case True
        then show ?thesis
          using u col same by (simp add: moveTask0_def)
      next
        case False
        then show ?thesis
          using u True cc inv_moved(2) [OF tc co False, of "cursorColumn m + 1" e fs] by auto
      qed
    next
      case False
      then show ?thesis using u same by auto
    qed
  next
    case other
    then show ?thesis
      using same by (simp add: keySwitch0_def)
  qed
qed

lemma inv_Update0:
  assumes tc: "three_columns m" and co: "cursor_ok m"
  shows "inv_outcome (Update0 ti e fs msg m)"
proof (cases msg)
  case (KeyMsg k)
  obtain m1 fs1 where k0: "keySwitch0 e fs k m = Some (m1, fs1)" "three_columns m1" "cursor_ok m1"
    using inv_keySwitch0 [OF tc co, of e fs k] by blast
  consider (quit) "k = ''ctrl+c'' \<or> k = ''q''" | (hlp) "k = ''?''" | (a) "k = ''a''"
    | (other) "k \<noteq> ''ctrl+c''" "k \<noteq> ''q''" "k \<noteq> ''?''" "k \<noteq> ''a''"
    by blast
  then show ?thesis
  proof cases
    case quit
    then show ?thesis
      using KeyMsg inv_quitKey [OF tc co, of e fs] by (elim disjE) (simp_all add: Update0_def)
  next
    case hlp
    then show ?thesis
      using KeyMsg inv_frame [OF tc co] by (simp add: Update0_def)
  next
    case a
    then show ?thesis
      using KeyMsg inv_frame [OF tc co] k0 inv_tail0 [OF k0(2,3)]
      by (simp add: Update0_def)
  next
    case other
    then show ?thesis
      using KeyMsg k0 inv_tail0 [OF k0(2,3)] by (simp add: Update0_def)
  qed
next
  case (WindowSizeMsg w h)
  have "three_columns (m\<lparr>width := w, height := h\<rparr>)" "cursor_ok (m\<lparr>width := w, height := h\<rparr>)"
    using inv_frame [OF tc co, of "m\<lparr>width := w, height := h\<rparr>"] by simp_all
  then show ?thesis
    using WindowSizeMsg inv_tail0 by (simp add: Update0_def)
next
  case OtherMsg
  then show ?thesis
    using inv_tail0 [OF tc co] by (simp add: Update0_def)
qed


lemma inv_run:
  assumes step: "\<And>e fs msg m. three_columns m \<Longrightarrow> cursor_ok m \<Longrightarrow> inv_outcome (u e fs msg m)"
  shows "three_columns m \<Longrightarrow> cursor_ok m \<Longrightarrow>
         \<exists>m' fs'. run u steps fs m = Some (m', fs') \<and> three_columns m' \<and> cursor_ok m'"
proof (induction steps arbitrary: fs m)
  case Nil
  then show ?case by simp
next
  case (Cons s steps)
  obtain e msg where s: "s = (e, msg)" by (cases s)
  from step [OF Cons.prems, of e fs msg]
  obtain m1 c fs1 where u: "u e fs msg m = Some (m1, c, fs1)" "three_columns m1" "cursor_ok m1"
    by (auto simp: inv_outcome_def split: option.splits)
  show ?case
    using s u Cons.IH [OF u(2,3), of fs1] by simp
qed

section \<open>Decoding what was encoded\<close>

lemma unmarshal_marshal_Task: "unmarshal_Task (marshal_Task t) t0 = (t, False)"
  by (cases t, cases t0, cases "CreatedAt t") (simp add: Let_def)

lemma unmarshal_slice_Tasks:
  "unmarshal_slice unmarshal_Task z (map marshal_Task ts) old = map (\<lambda>t. (t, False)) ts"
proof (induction ts arbitrary: old)
  case Nil
  then show ?case by simp
next
  case (Cons t ts)
  then show ?case
    by (cases old) (simp_all add: unmarshal_marshal_Task del: marshal_Task.simps unmarshal_Task.simps)
qed

lemma list_ex_no_error: "\<not> list_ex snd (map (\<lambda>t. (t, False)) xs)"
  by (induction xs) simp_all

lemma unmarshal_marshal_Tasks:
  "unmarshal_Tasks (JArr (map marshal_Task ts)) old = (ts, False)"
  by (simp add: unmarshal_slice_Tasks list_ex_no_error Let_def comp_def
      del: marshal_Task.simps)

lemma unmarshal_marshal_Column: "unmarshal_Column (marshal_Column c) c0 = (c, False)"
  by (cases c, cases c0) (simp add: Let_def unmarshal_marshal_Tasks del: marshal_Task.simps unmarshal_Tasks.simps)

lemma unmarshal_slice_Columns:
  "unmarshal_slice unmarshal_Column z (map marshal_Column cs) old = map (\<lambda>c. (c, False)) cs"
proof (induction cs arbitrary: old)
  case Nil
  then show ?case by simp
next
  case (Cons c cs)
  then show ?case
    by (cases old)
       (simp_all add: unmarshal_marshal_Column del: marshal_Column.simps unmarshal_Column.simps)
qed

lemma unmarshal_marshal_KanbanBoard:
  "unmarshal_KanbanBoard (marshal_KanbanBoard b) b0 = (b, False)"
  by (cases b, cases b0)
     (simp add: unmarshal_slice_Columns list_ex_no_error Let_def comp_def
       del: marshal_Column.simps)

section \<open>Task ids, transition by transition\<close>

lemma ids_outcome_Some [simp]:
  "ids_outcome m (Some (m', c, fs')) = (id_step m m' \<and> lastID m' \<le> lastID m + 1)"
  by (simp add: ids_outcome_def)

lemma ids_outcome_None [simp]: "ids_outcome m None"
  by (simp add: ids_outcome_def)



lemma id_step_bounded:
  assumes a: "ids_bounded m" and b: "id_step m m'"
  shows "ids_bounded m'"
proof -
  have "j \<le> lastID m'" if j: "j \<in> set (task_ids (board m'))" for j
  proof -
    from b j have "j \<in> set (task_ids (board m)) \<or> (lastID m < j \<and> j \<le> lastID m')"
      unfolding id_step_def by blast
    moreover have "lastID m \<le> lastID m'"
      using b by (simp add: id_step_def)
    moreover have "j \<in> set (task_ids (board m)) \<Longrightarrow> j \<le> lastID m"
      using a unfolding ids_bounded_def by blast
    ultimately show ?thesis by linarith
  qed
  then show ?thesis unfolding ids_bounded_def by blast
qed































lemma initialModel_saved:
  assumes "fs p = Some (Document (marshal_KanbanBoard b))" and "\<not> fault e"
  shows "initialModel e fs p =
    \<lparr>board = b, cursorColumn = 0, cursorTask = 0,
      textInput = \<lparr>Value = []\<rparr>, inputMode = False, inputState = NormalMode,
      width = 0, height = 0, err = None, savePath = p, lastID = highest_id 0 b,
      showTaskInput = False, showHelp = True, dialogType = NoDialog,
      editingTask = None\<rparr>"
  using assms
  by (simp add: initialModel_def loadBoard_def unmarshal_marshal_KanbanBoard
      del: marshal_KanbanBoard.simps unmarshal_KanbanBoard.simps)




section \<open>The model at start\<close>

lemma loadBoard_cursor:
  "cursorColumn (fst (loadBoard e fs m)) = cursorColumn m \<and>
   cursorTask (fst (loadBoard e fs m)) = cursorTask m"
  by (simp add: loadBoard_def Let_def split: option.splits filedata.splits prod.splits)

lemma initialModel_cursor:
  "cursorColumn (initialModel e fs p) = 0 \<and> cursorTask (initialModel e fs p) = 0"
  using loadBoard_cursor [of e fs]
  by (simp add: initialModel_def Let_def split: option.splits prod.splits) (metis fst_conv model.select_convs(2,3))

lemma inv_initialModel:
  "cursor_ok (initialModel e fs p)"
  "fault e \<or> fs p = None \<or> fs p = Some Malformed \<Longrightarrow> three_columns (initialModel e fs p)"
  "\<not> fault e \<Longrightarrow> fs p = Some (Document (marshal_KanbanBoard b)) \<Longrightarrow> length (Columns b) = 3 \<Longrightarrow>
     three_columns (initialModel e fs p)"
proof -
  show "cursor_ok (initialModel e fs p)"
    using initialModel_cursor [of e fs p] by (simp add: cursor_ok_def)
  show "fault e \<or> fs p = None \<or> fs p = Some Malformed \<Longrightarrow> three_columns (initialModel e fs p)"
    by (elim disjE)
       (simp_all add: initialModel_def loadBoard_def three_columns_def default_board_def Let_def)
  show "\<not> fault e \<Longrightarrow> fs p = Some (Document (marshal_KanbanBoard b)) \<Longrightarrow> length (Columns b) = 3 \<Longrightarrow>
     three_columns (initialModel e fs p)"
    by (simp add: initialModel_saved three_columns_def)
qed

lemma highest_in_column_ge:
  "l \<le> highest_in_column l col \<and> (\<forall>t \<in> set (Tasks col). ID t \<le> highest_in_column l col)"
proof -
  have "l \<le> foldl (\<lambda>l task. if ID task > l then ID task else l) l ts \<and>
        (\<forall>t \<in> set ts. ID t \<le> foldl (\<lambda>l task. if ID task > l then ID task else l) l ts)" for ts
  proof (induction ts arbitrary: l)
    case Nil
    then show ?case by simp
  next
    case (Cons t ts)
    show ?case
      using Cons.IH [of "if ID t > l then ID t else l"] by (auto split: if_splits)
  qed
  then show ?thesis by (simp add: highest_in_column_def)
qed

lemma highest_id_ge:
  "l \<le> highest_id l b \<and> (\<forall>j \<in> set (task_ids b). j \<le> highest_id l b)"
proof -
  have "l \<le> foldl highest_in_column l cs \<and>
        (\<forall>col \<in> set cs. \<forall>t \<in> set (Tasks col). ID t \<le> foldl highest_in_column l cs)" for cs
  proof (induction cs arbitrary: l)
    case Nil
    then show ?case by simp
  next
    case (Cons c cs)
    have a: "l \<le> highest_in_column l c" "\<forall>t \<in> set (Tasks c). ID t \<le> highest_in_column l c"
      using highest_in_column_ge [of l c] by simp_all
    have b: "highest_in_column l c \<le> foldl highest_in_column (highest_in_column l c) cs"
      "\<forall>col \<in> set cs. \<forall>t \<in> set (Tasks col).
         ID t \<le> foldl highest_in_column (highest_in_column l c) cs"
      using Cons.IH [of "highest_in_column l c"] by simp_all
    show ?case
      using a b by (auto intro: order_trans)
  qed
  then show ?thesis by (auto simp: highest_id_def task_ids_def)
qed

lemma ids_bounded_initialModel:
  "fault e \<or> fs p = None \<or> fs p = Some Malformed \<Longrightarrow> ids_bounded (initialModel e fs p)"
  "\<not> fault e \<Longrightarrow> fs p = Some (Document (marshal_KanbanBoard b)) \<Longrightarrow>
     ids_bounded (initialModel e fs p) \<and> lastID (initialModel e fs p) = highest_id 0 b"
proof -
  show "fault e \<or> fs p = None \<or> fs p = Some Malformed \<Longrightarrow> ids_bounded (initialModel e fs p)"
    by (elim disjE)
       (simp_all add: initialModel_def loadBoard_def ids_bounded_def task_ids_def
         default_board_def Let_def)
  show "\<not> fault e \<Longrightarrow> fs p = Some (Document (marshal_KanbanBoard b)) \<Longrightarrow>
     ids_bounded (initialModel e fs p) \<and> lastID (initialModel e fs p) = highest_id 0 b"
    using highest_id_ge [of 0 b] by (simp add: initialModel_saved ids_bounded_def)
qed

section \<open>What an edit commit keeps\<close>

text \<open>Committing the edit dialog writes the buffer to the title at the bound position
  and changes no id, description or creation time on the board.\<close>

lemma setTitle_keeps_identity:
  "map ID (Tasks (Columns (setTitle b p s) ! j)) = map ID (Tasks (Columns b ! j)) \<and>
   map Description (Tasks (Columns (setTitle b p s) ! j)) = map Description (Tasks (Columns b ! j)) \<and>
   map CreatedAt (Tasks (Columns (setTitle b p s) ! j)) = map CreatedAt (Tasks (Columns b ! j))"
proof (cases p)
  case (Pair c i)
  show ?thesis
  proof (cases "c < length (Columns b) \<and> i < length (Tasks (Columns b ! c))")
    case True
    then show ?thesis
      using Pair
      by (cases "j = c") (simp_all add: setTitle_def setTasks_def map_update list_update_same_conv)
  next
    case False
    then show ?thesis using Pair by (auto simp: setTitle_def)
  qed
qed

lemma edit_commit_keeps_identity:
  assumes "dialogType m = EditDialog" and "inputMode m" and "editingTask m = Some p"
  shows "\<exists>m' fs'. Update ti e fs (KeyMsg ''enter'') m = Some (m', NoCmd, fs') \<and>
    board m' = setTitle (board m) p (Value (textInput m)) \<and>
    (\<forall>j. map ID (Tasks (Columns (board m') ! j)) = map ID (Tasks (Columns (board m) ! j)) \<and>
         map Description (Tasks (Columns (board m') ! j)) =
           map Description (Tasks (Columns (board m) ! j)) \<and>
         map CreatedAt (Tasks (Columns (board m') ! j)) =
           map CreatedAt (Tasks (Columns (board m) ! j)))"
proof -
  have c: "dialogType m = EditDialog \<and> editingTask m \<noteq> None"
    using assms by simp
  have u: "Update ti e fs (KeyMsg ''enter'') m = commitInput e fs m"
    using assms by (cases "inputState m") (simp_all add: Update_def updateInput_def)
  show ?thesis
    unfolding u
    apply (subst commitInput_def)
    apply (subst if_P [OF c])
    using assms(3) setTitle_keeps_identity [of "board m" p "Value (textInput m)"]
    apply (simp add: persist_eq Let_def)
    done
qed

section \<open>The cursor invariant\<close>

text \<open>
  Claim C1. From a model whose board has its three columns and whose cursor is valid
  (\<open>0 \<le> cursorColumn < 3\<close> and \<open>0 \<le> cursorTask < max 1 (len tasks)\<close> for the column
  under the cursor), every transition, for every message (any key in any mode, a window
  resize, any other message), every environment and every behaviour of the text input,
  returns without a panic a model with three columns and a valid cursor; so does every
  sequence of transitions. Both source files do so. The model built at start has a valid
  cursor, and it has three columns when the snapshot is missing, unreadable or malformed
  (the default board is used) or holds a saved board of three columns.
\<close>

theorem cursor_invariant:
  assumes "three_columns m" and "cursor_ok m"
  shows "(\<exists>m' c fs'. Update ti e fs msg m = Some (m', c, fs') \<and> three_columns m' \<and> cursor_ok m') \<and>
         (\<exists>m' c fs'. Update0 ti e fs msg m = Some (m', c, fs') \<and> three_columns m' \<and> cursor_ok m') \<and>
         (\<exists>m' fs'. run (Update ti) steps fs m = Some (m', fs') \<and> three_columns m' \<and> cursor_ok m') \<and>
         (\<exists>m' fs'. run (Update0 ti) steps fs m = Some (m', fs') \<and> three_columns m' \<and> cursor_ok m') \<and>
         cursor_ok (initialModel e' fs0 p) \<and>
         (fault e' \<or> fs0 p = None \<or> fs0 p = Some Malformed \<longrightarrow>
            three_columns (initialModel e' fs0 p)) \<and>
         (\<not> fault e' \<and> fs0 p = Some (Document (marshal_KanbanBoard b)) \<and>
          length (Columns b) = 3 \<longrightarrow> three_columns (initialModel e' fs0 p))"
proof (intro conjI)
  show "cursor_ok (initialModel e' fs0 p)"
    by (rule inv_initialModel(1))
  show "fault e' \<or> fs0 p = None \<or> fs0 p = Some Malformed \<longrightarrow>
          three_columns (initialModel e' fs0 p)"
    using inv_initialModel(2) [of e' fs0 p] by blast
  show "\<not> fault e' \<and> fs0 p = Some (Document (marshal_KanbanBoard b)) \<and>
          length (Columns b) = 3 \<longrightarrow> three_columns (initialModel e' fs0 p)"
    using inv_initialModel(3) [of e' fs0 p b] by blast
  show "\<exists>m' c fs'. Update ti e fs msg m = Some (m', c, fs') \<and> three_columns m' \<and> cursor_ok m'"
    using inv_Update [OF assms, of ti e fs msg]
    by (auto simp: inv_outcome_def split: option.splits)
  show "\<exists>m' c fs'. Update0 ti e fs msg m = Some (m', c, fs') \<and> three_columns m' \<and> cursor_ok m'"
    using inv_Update0 [OF assms, of ti e fs msg]
    by (auto simp: inv_outcome_def split: option.splits)
  show "\<exists>m' fs'. run (Update ti) steps fs m = Some (m', fs') \<and> three_columns m' \<and> cursor_ok m'"
    by (rule inv_run [where u = "Update ti"]) (simp_all add: inv_Update assms)
  show "\<exists>m' fs'. run (Update0 ti) steps fs m = Some (m', fs') \<and> three_columns m' \<and> cursor_ok m'"
    by (rule inv_run [where u = "Update0 ti"]) (simp_all add: inv_Update0 assms)
qed

theorem cursor_invariant_witness:
  "three_columns start \<and> cursor_ok start \<and> three_columns demo \<and> cursor_ok demo \<and>
   (\<exists>m' c fs'. Update typing e0 Map.empty (KeyMsg ''j'') demo = Some (m', c, fs') \<and>
      three_columns m' \<and> cursor_ok m') \<and>
   (\<exists>m' fs'. run (Update typing)
        [(e0, KeyMsg ''d''), (e0, KeyMsg ''y''), (e0, KeyMsg '']''), (e_fault, KeyMsg ''[''),
         (e0, WindowSizeMsg 100 40), (e0, KeyMsg ''a''), (e0, KeyMsg ''x''), (e0, KeyMsg ''enter'')]
        Map.empty demo = Some (m', fs') \<and> three_columns m' \<and> cursor_ok m') \<and>
   (\<exists>m' fs'. run (Update0 typing)
        [(e0, KeyMsg ''d''), (e0, KeyMsg ''l''), (e0, KeyMsg ''d''), (e0, KeyMsg ''[''),
         (e0, KeyMsg ''a''), (e0, KeyMsg ''x''), (e0, KeyMsg ''enter'')]
        Map.empty start = Some (m', fs') \<and> three_columns m' \<and> cursor_ok m')"
proof -
  have s: "three_columns start" "cursor_ok start"
    by (simp_all add: start_eq default_board_def three_columns_def cursor_ok_def)
  have d: "three_columns demo" "cursor_ok demo"
    by (simp_all add: demo_def demo_board_def three_columns_def cursor_ok_def)
  show ?thesis
    using s d
      cursor_invariant [OF d, where ti = typing and e = e0 and fs = Map.empty
        and msg = "KeyMsg ''j''" and e' = e0 and ?fs0.0 = Map.empty and p = kanban_json
        and b = demo_board and steps =
        "[(e0, KeyMsg ''d''), (e0, KeyMsg ''y''), (e0, KeyMsg '']''), (e_fault, KeyMsg ''[''),
         (e0, WindowSizeMsg 100 40), (e0, KeyMsg ''a''), (e0, KeyMsg ''x''), (e0, KeyMsg ''enter'')]"]
      cursor_invariant [OF s, where ti = typing and e = e0 and fs = Map.empty
        and msg = "KeyMsg ''j''" and e' = e0 and ?fs0.0 = Map.empty and p = kanban_json
        and b = demo_board and steps =
        "[(e0, KeyMsg ''d''), (e0, KeyMsg ''l''), (e0, KeyMsg ''d''), (e0, KeyMsg ''[''),
         (e0, KeyMsg ''a''), (e0, KeyMsg ''x''), (e0, KeyMsg ''enter'')]"]
    by blast
qed

section \<open>Deleting a task\<close>

text \<open>
  Claim C2, as amended. In gotask.go the delete key on a non-empty column removes nothing
  and opens the delete confirmation. There \<^verbatim>\<open>y\<close> and \<^verbatim>\<open>Y\<close> remove the task under the
  cursor, clamp the cursor, save the board and close the dialog; \<^verbatim>\<open>n\<close>, \<^verbatim>\<open>N\<close>,
  \<^verbatim>\<open>esc\<close>, \<^verbatim>\<open>q\<close> and \<^verbatim>\<open>ctrl+c\<close> close the dialog and change nothing else; every
  other key changes nothing at all. The second source file has no confirmation: its
  delete key removes the task at once and saves.
\<close>

theorem delete_confirmation:
  fixes m :: model and e :: env and fs :: files
  defines "ts \<equiv> Tasks (Columns (board m) ! nat (cursorColumn m))"
  defines "b' \<equiv> setTasks (board m) (nat (cursorColumn m))
                  (take (nat (cursorTask m)) ts @ drop (Suc (nat (cursorTask m))) ts)"
  defines "i' \<equiv> (if cursorTask m \<ge> int (length ts) - 1 \<and> cursorTask m > 0
                  then cursorTask m - 1 else cursorTask m)"
  defines "er \<equiv> (if fault e then Some PathError else err m)"
  defines "fs' \<equiv> (if fault e then fs else fs(savePath m \<mapsto> Document (marshal_KanbanBoard b')))"
  assumes "three_columns m" and "cursor_ok m" and "ts \<noteq> []"
  shows
   "(browsing m \<longrightarrow>
       Update ti e fs (KeyMsg ''d'') m = Some (m\<lparr>dialogType := DeleteDialog\<rparr>, NoCmd, fs)) \<and>
    (dialogType m = DeleteDialog \<longrightarrow>
       (k = ''y'' \<or> k = ''Y'' \<longrightarrow>
          Update ti e fs (KeyMsg k) m =
            Some (m\<lparr>board := b', cursorTask := i', err := er, dialogType := NoDialog\<rparr>,
                  NoCmd, fs')) \<and>
       (k = ''n'' \<or> k = ''N'' \<or> k = ''esc'' \<or> k = ''q'' \<or> k = ''ctrl+c'' \<longrightarrow>
          Update ti e fs (KeyMsg k) m = Some (m\<lparr>dialogType := NoDialog\<rparr>, NoCmd, fs)) \<and>
       (k \<notin> {''y'', ''Y'', ''n'', ''N'', ''esc'', ''q'', ''ctrl+c''} \<longrightarrow>
          Update ti e fs (KeyMsg k) m = Some (m, NoCmd, fs))) \<and>
    (\<not> inputMode m \<longrightarrow>
       Update0 ti e fs (KeyMsg ''d'') m =
         Some (m\<lparr>board := b', cursorTask := i', err := er\<rparr>, NoCmd, fs'))"
  using assms
  by (simp add: delete_key_opens_dialog confirm_deletes cancel_keeps_board other_key_ignored
      delete_key0_removes)

theorem delete_confirmation_witness:
  "Update typing e0 Map.empty (KeyMsg ''d'') demo = Some (confirming, NoCmd, Map.empty) \<and>
   Update typing e0 Map.empty (KeyMsg ''x'') confirming = Some (confirming, NoCmd, Map.empty) \<and>
   Update typing e0 Map.empty (KeyMsg ''n'') confirming = Some (demo, NoCmd, Map.empty) \<and>
   (\<exists>m' fs'. Update typing e0 Map.empty (KeyMsg ''y'') confirming = Some (m', NoCmd, fs') \<and>
      map Tasks (Columns (board m')) = [[task1], [task3], []] \<and> cursorTask m' = 0 \<and>
      dialogType m' = NoDialog \<and>
      fs' kanban_json = Some (Document (marshal_KanbanBoard (board m')))) \<and>
   (\<exists>m' fs'. Update0 typing e0 Map.empty (KeyMsg ''d'') demo = Some (m', NoCmd, fs') \<and>
      map Tasks (Columns (board m')) = [[task1], [task3], []] \<and> cursorTask m' = 0)"
  using delete_confirmation [where m = demo and ti = typing and e = e0 and fs = Map.empty]
    delete_confirmation [where m = confirming and ti = typing and e = e0 and fs = Map.empty
      and k = "''x''"]
    delete_confirmation [where m = confirming and ti = typing and e = e0 and fs = Map.empty
      and k = "''n''"]
    delete_confirmation [where m = confirming and ti = typing and e = e0 and fs = Map.empty
      and k = "''y''"]
  by (simp add: confirming_def demo_def demo_board_def three_columns_def cursor_ok_def
      browsing_def setTasks_def e0_def)

text \<open>The claim as stated fails on the second source file: the delete key on the demo
  board, whose first column holds two tasks, removes the second of them at once and
  opens no dialog.\<close>

theorem delete_confirmation_counterexample:
  "browsing demo \<and> map Tasks (Columns (board demo)) = [[task1, task2], [task3], []] \<and>
   (\<exists>m' fs'. Update0 typing e0 Map.empty (KeyMsg ''d'') demo = Some (m', NoCmd, fs') \<and>
      map Tasks (Columns (board m')) = [[task1], [task3], []] \<and>
      dialogType m' \<noteq> DeleteDialog)"
  by (simp add: delete_key0_removes demo_def demo_board_def three_columns_def cursor_ok_def
      browsing_def setTasks_def e0_def)

section \<open>Committing the dialog for a new task\<close>

text \<open>
  Claim C3, as amended. Committing the dialog for a new task with an empty buffer creates
  no task: the dialog closes and the board and the id counter are unchanged. A buffer
  that is not empty, whatever its characters, is committed: the counter advances and a
  task with the buffer as its title is appended to the column under the cursor. So no
  task with an empty title is created by an add. Both source files do so.
\<close>

theorem add_commit:
  assumes "three_columns m" and "0 \<le> cursorColumn m" and "cursorColumn m < 3"
  shows
   "(adding_new m \<and> Value (textInput m) = [] \<longrightarrow>
       Update ti e fs (KeyMsg ''enter'') m =
         Some (m\<lparr>inputMode := False, inputState := NormalMode\<rparr>, NoCmd, fs)) \<and>
    (inputMode m \<and> Value (textInput m) = [] \<longrightarrow>
       Update0 ti e fs (KeyMsg ''enter'') m = Some (m\<lparr>inputMode := False\<rparr>, NoCmd, fs)) \<and>
    (adding_new m \<and> Value (textInput m) \<noteq> [] \<longrightarrow>
       (\<exists>m' fs'. Update ti e fs (KeyMsg ''enter'') m = Some (m', NoCmd, fs') \<and>
          lastID m' = incr (lastID m) \<and>
          Tasks (Columns (board m') ! nat (cursorColumn m)) =
            Tasks (Columns (board m) ! nat (cursorColumn m)) @
              [\<lparr>ID = incr (lastID m), Title = Value (textInput m), Description = [],
                CreatedAt = now e\<rparr>])) \<and>
    (inputMode m \<and> Value (textInput m) \<noteq> [] \<longrightarrow>
       (\<exists>m' fs'. Update0 ti e fs (KeyMsg ''enter'') m = Some (m', NoCmd, fs') \<and>
          lastID m' = incr (lastID m) \<and>
          Tasks (Columns (board m') ! nat (cursorColumn m)) =
            Tasks (Columns (board m) ! nat (cursorColumn m)) @
              [\<lparr>ID = incr (lastID m), Title = Value (textInput m), Description = [],
                CreatedAt = now e\<rparr>]))"
proof -
  have a: "at (Columns (board m)) (cursorColumn m) = Some (Columns (board m) ! nat (cursorColumn m))"
    using assms by (simp add: at_def three_columns_def)
  have c: "nat (cursorColumn m) < length (Columns (board m))"
    using assms by (simp add: three_columns_def)
  show ?thesis
    using a c by (simp add: adding_new_enter input_enter0 persist_eq setTasks_nth)
qed

theorem add_commit_witness:
  "Update typing e0 Map.empty (KeyMsg ''enter'') (typing_a_task\<lparr>textInput := \<lparr>Value = []\<rparr>\<rparr>) =
     Some (demo, NoCmd, Map.empty) \<and>
   Update0 typing e0 Map.empty (KeyMsg ''enter'') (typing_a_task\<lparr>textInput := \<lparr>Value = []\<rparr>\<rparr>) =
     Some (demo, NoCmd, Map.empty) \<and>
   (\<exists>m' fs'. Update typing e0 Map.empty (KeyMsg ''enter'') typing_a_task = Some (m', NoCmd, fs') \<and>
      lastID m' = 4 \<and>
      Tasks (Columns (board m') ! 0) =
        [task1, task2, \<lparr>ID = 4, Title = ''h'', Description = [], CreatedAt = now e0\<rparr>]) \<and>
   (\<exists>m' fs'. Update0 typing e0 Map.empty (KeyMsg ''enter'') typing_a_task = Some (m', NoCmd, fs') \<and>
      lastID m' = 4 \<and>
      Tasks (Columns (board m') ! 0) =
        [task1, task2, \<lparr>ID = 4, Title = ''h'', Description = [], CreatedAt = now e0\<rparr>])"
  using add_commit [of "typing_a_task\<lparr>textInput := \<lparr>Value = []\<rparr>\<rparr>" typing e0 Map.empty]
    add_commit [of typing_a_task typing e0 Map.empty]
  by (simp add: typing_a_task_def demo_def demo_board_def three_columns_def adding_new_def
      incr_def)

text \<open>The claim as stated fails for a buffer of white space: the keys \<^verbatim>\<open>a\<close> and space
  on the demo board open the dialog with one blank in the buffer, and \<^verbatim>\<open>enter\<close> there
  creates task 4 with the blank as its title and advances the counter from 3 to 4.\<close>

theorem add_commit_counterexample:
  "\<exists>m. run (Update typing) [(e0, KeyMsg ''a''), (e0, KeyMsg '' '')] Map.empty demo =
          Some (m, Map.empty) \<and>
       adding_new m \<and> Value (textInput m) = '' '' \<and> lastID m = 3 \<and>
       (\<exists>m' fs'. Update typing e0 Map.empty (KeyMsg ''enter'') m = Some (m', NoCmd, fs') \<and>
          lastID m' = 4 \<and>
          Tasks (Columns (board m') ! 0) =
            [task1, task2, \<lparr>ID = 4, Title = '' '', Description = [], CreatedAt = now e0\<rparr>])"
proof (intro exI conjI)
  show "run (Update typing) [(e0, KeyMsg ''a''), (e0, KeyMsg '' '')] Map.empty demo =
          Some (blank_title, Map.empty)"
    by (rule reach_blank)
  show "adding_new blank_title"
    by (simp add: adding_new_def blank_title_def demo_def)
  show "Value (textInput blank_title) = '' ''" and "lastID blank_title = 3"
    by (simp_all add: blank_title_def demo_def)
  let ?m = "demo\<lparr>lastID := 4,
      board := setTasks demo_board 0
        [task1, task2, \<lparr>ID = 4, Title = '' '', Description = [], CreatedAt = now e0\<rparr>]\<rparr>"
  show "Update typing e0 Map.empty (KeyMsg ''enter'') blank_title =
          Some (?m, NoCmd, Map.empty(kanban_json \<mapsto> Document (marshal_KanbanBoard (board ?m))))"
    by (simp add: blank_title_def demo_def demo_board_def Update_def updateInput_def
        commitInput_def at_def incr_def persist_eq e0_def Reset_def Let_def)
  show "lastID ?m = 4" by simp
  show "Tasks (Columns (board ?m) ! 0) =
          [task1, task2, \<lparr>ID = 4, Title = '' '', Description = [], CreatedAt = now e0\<rparr>]"
    by (simp add: setTasks_def demo_board_def)
qed

section \<open>Committing the edit dialog\<close>

text \<open>
  Claim C4. The add path tests the buffer for emptiness before it creates a task; the
  edit path (lines 287-297 and 344-354) assigns the buffer to the title without a test.
  On the demo board the key \<^verbatim>\<open>e\<close> opens the edit dialog on the task \<^verbatim>\<open>Review\<close>, six
  \<^verbatim>\<open>backspace\<close> keys empty the buffer, and \<^verbatim>\<open>enter\<close> then stores the empty title, saves
  the board and returns to browsing with no error.
\<close>

theorem edit_commit_empty_title:
  "\<exists>m. run (Update typing)
          [(e0, KeyMsg ''e''), (e0, KeyMsg ''backspace''), (e0, KeyMsg ''backspace''),
           (e0, KeyMsg ''backspace''), (e0, KeyMsg ''backspace''), (e0, KeyMsg ''backspace''),
           (e0, KeyMsg ''backspace'')] Map.empty demo = Some (m, Map.empty) \<and>
       editingTask m = Some (0, 1) \<and> Value (textInput m) = [] \<and>
       map Title (Tasks (Columns (board m) ! 0)) = [''Write spec'', ''Review''] \<and>
       (\<exists>m' fs'. Update typing e0 Map.empty (KeyMsg ''enter'') m = Some (m', NoCmd, fs') \<and>
          map Title (Tasks (Columns (board m') ! 0)) = [''Write spec'', []] \<and>
          browsing m' \<and> err m' = None \<and>
          fs' kanban_json = Some (Document (marshal_KanbanBoard (board m'))))"
proof (intro exI conjI)
  show "run (Update typing)
          [(e0, KeyMsg ''e''), (e0, KeyMsg ''backspace''), (e0, KeyMsg ''backspace''),
           (e0, KeyMsg ''backspace''), (e0, KeyMsg ''backspace''), (e0, KeyMsg ''backspace''),
           (e0, KeyMsg ''backspace'')] Map.empty demo = Some (editing_blank, Map.empty)"
    by (rule reach_editing_blank)
  show "editingTask editing_blank = Some (0, 1)" and "Value (textInput editing_blank) = []"
    by (simp_all add: editing_blank_def)
  show "map Title (Tasks (Columns (board editing_blank) ! 0)) = [''Write spec'', ''Review'']"
    by (simp add: editing_blank_def demo_def demo_board_def task1_def task2_def)
  let ?m = "demo\<lparr>board := setTitle demo_board (0, 1) []\<rparr>"
  show "Update typing e0 Map.empty (KeyMsg ''enter'') editing_blank =
          Some (?m, NoCmd, Map.empty(kanban_json \<mapsto> Document (marshal_KanbanBoard (board ?m))))"
    by (simp add: editing_blank_def demo_def Update_def updateInput_def commitInput_def
        persist_eq e0_def Let_def)
  show "map Title (Tasks (Columns (board ?m) ! 0)) = [''Write spec'', []]"
    by (simp add: setTitle_def setTasks_def demo_board_def task1_def task2_def)
  show "browsing ?m" and "err ?m = None"
    by (simp_all add: browsing_def demo_def)
  show "(Map.empty(kanban_json \<mapsto> Document (marshal_KanbanBoard (board ?m)))) kanban_json =
          Some (Document (marshal_KanbanBoard (board ?m)))"
    by simp
qed

section \<open>Ids of deleted tasks\<close>




section \<open>Saving and loading\<close>

text \<open>
  Claim C6. When \<^verbatim>\<open>saveBoard\<close> has written the board, \<^verbatim>\<open>loadBoard\<close> from the same path,
  into any model, replaces that model's board by a board equal to the saved one: the
  same columns in the same order, each with its id, its title and the same tasks in the
  same order, each task with its id, title, description and creation time. So the model
  built at the next start holds the saved board. (The id counter becomes the largest
  task id of the board, if that is above the counter the model had.)
\<close>

theorem save_load_round_trip:
  assumes "saveBoard e fs m = (None, fs')" and "\<not> fault e'" and "savePath m0 = savePath m"
  shows "loadBoard e' fs' m0 =
           (m0\<lparr>board := board m, lastID := highest_id (lastID m0) (board m)\<rparr>, None) \<and>
         board (initialModel e' fs' (savePath m)) = board m \<and>
         err (initialModel e' fs' (savePath m)) = None"
proof -
  have f: "fs' = fs(savePath m \<mapsto> Document (marshal_KanbanBoard (board m)))"
    using assms(1) by (cases "fault e") (simp_all add: saveBoard_fault saveBoard_ok)
  show ?thesis
    using assms(2,3)
    by (simp add: f loadBoard_def initialModel_def unmarshal_marshal_KanbanBoard
        del: marshal_KanbanBoard.simps unmarshal_KanbanBoard.simps)
qed

theorem save_load_round_trip_witness:
  "\<exists>fs'. saveBoard e0 Map.empty demo = (None, fs') \<and>
     loadBoard e0 fs' start = (start\<lparr>board := demo_board, lastID := 3\<rparr>, None) \<and>
     board (initialModel e0 fs' kanban_json) = demo_board \<and>
     err (initialModel e0 fs' kanban_json) = None"
proof -
  have s: "saveBoard e0 Map.empty demo =
      (None, Map.empty(kanban_json \<mapsto> Document (marshal_KanbanBoard demo_board)))"
    by (simp add: saveBoard_ok e0_def demo_def del: marshal_KanbanBoard.simps)
  have h: "highest_id 0 demo_board = 3"
    by (simp add: highest_id_def highest_in_column_def demo_board_def task1_def task2_def task3_def)
  let ?fs = "Map.empty(kanban_json \<mapsto> Document (marshal_KanbanBoard demo_board))"
  from save_load_round_trip [OF s, of e0 start] h
  have "loadBoard e0 ?fs start = (start\<lparr>board := demo_board, lastID := 3\<rparr>, None) \<and>
     board (initialModel e0 ?fs kanban_json) = demo_board \<and>
     err (initialModel e0 ?fs kanban_json) = None"
    by (simp add: e0_def start_eq demo_def del: marshal_KanbanBoard.simps)
  with s show ?thesis by blast
qed

section \<open>Moving a task to an adjacent column\<close>

text \<open>
  Claim C7. In browsing mode, with the cursor on a task, the keys \<^verbatim>\<open>[\<close>/\<^verbatim>\<open>{\<close> (when
  there is a column to the left) and \<^verbatim>\<open>]\<close>/\<^verbatim>\<open>}\<close> (when there is one to the right) move
  the task under the cursor to that column: the board keeps its three columns and its
  number of tasks; the destination column is its old sequence with the task, unchanged
  in every field, appended; the source column is its old sequence without that element;
  the third column is as it was; the cursor is on the destination column's new last
  row; and the board is saved. Both source files compute the same model.
\<close>

theorem move_task:
  fixes m :: model and e :: env and fs :: files and dst :: int
  defines "c \<equiv> nat (cursorColumn m)"
  defines "i \<equiv> nat (cursorTask m)"
  defines "src \<equiv> Tasks (Columns (board m) ! nat (cursorColumn m))"
  assumes tc: "three_columns m" and co: "cursor_ok m" and br: "browsing m" and ne: "src \<noteq> []"
    and key: "(k = ''['' \<or> k = ''{'') \<and> 0 < cursorColumn m \<and> dst = cursorColumn m - 1 \<or>
              (k = '']'' \<or> k = ''}'') \<and> cursorColumn m < 2 \<and> dst = cursorColumn m + 1"
  shows "\<exists>m' fs'.
    Update ti e fs (KeyMsg k) m = Some (m', NoCmd, fs') \<and>
    Update0 ti e fs (KeyMsg k) m = Some (m', NoCmd, fs') \<and>
    three_columns m' \<and>
    count_tasks (board m') = count_tasks (board m) \<and>
    Tasks (Columns (board m') ! nat dst) = Tasks (Columns (board m) ! nat dst) @ [src ! i] \<and>
    Tasks (Columns (board m') ! c) = take i src @ drop (Suc i) src \<and>
    (\<forall>j<3. j \<noteq> c \<and> j \<noteq> nat dst \<longrightarrow> Columns (board m') ! j = Columns (board m) ! j) \<and>
    cursorColumn m' = dst \<and>
    cursorTask m' = int (length (Tasks (Columns (board m') ! nat dst))) - 1 \<and>
    fs' = (if fault e then fs
           else fs(savePath m \<mapsto> Document (marshal_KanbanBoard (board m'))))"
proof -
  let ?b = "setTasks (setTasks (board m) c (take i src @ drop (Suc i) src))
              (nat dst) (Tasks (Columns (board m) ! nat dst) @ [src ! i])"
  let ?m = "m\<lparr>board := ?b, cursorColumn := dst,
              cursorTask := int (length (Tasks (Columns (board m) ! nat dst))),
              err := (if fault e then Some PathError else err m)\<rparr>"
  let ?fs = "if fault e then fs else fs(savePath m \<mapsto> Document (marshal_KanbanBoard ?b))"
  have cc: "0 \<le> cursorColumn m" "cursorColumn m < 3"
    using co by (simp_all add: cursor_ok_def)
  have d: "0 \<le> dst" "dst < 3" "dst \<noteq> cursorColumn m"
    using key cc by auto
  have len: "length (Columns (board m)) = 3"
    using tc by (simp add: three_columns_def)
  have cl: "c < 3" and dl: "nat dst < 3" and cd: "c \<noteq> nat dst"
    using cc d by (simp_all add: c_def nat_eq_iff)
  have il: "i < length src"
    using co ne cursor_task_in_range [of m] by (simp add: i_def src_def) linarith
  have mv: "moveTask e fs dst m = Some (?m, NoCmd, ?fs)"
    and mv0: "moveTask0 e fs dst m = Some (?m, ?fs)"
    using moveTask_ok [OF tc co _ d, of e fs] ne by (simp_all add: c_def i_def src_def)
  have u: "Update ti e fs (KeyMsg k) m = moveTask e fs dst m"
    using key br len
    by (elim disjE conjE) (simp_all add: browsing_dispatch updateBrowsing_def)
  have nim: "\<not> inputMode ?m"
    using br by (simp add: browsing_def)
  have u0: "Update0 ti e fs (KeyMsg k) m = Some (?m, NoCmd, ?fs)"
    using key br len mv0 nim
    by (elim disjE conjE) (simp_all add: Update0_def keySwitch0_def tail0_def browsing_def)
  have p1: "three_columns ?m"
    using len by (simp add: three_columns_def setTasks_length)
  have p2: "count_tasks (board ?m) = count_tasks (board m)"
    using count_tasks_move [of c "board m" "nat dst" i "src ! i"] cl dl cd il len
    by (simp add: src_def c_def)
  have p3: "Tasks (Columns (board ?m) ! nat dst) = Tasks (Columns (board m) ! nat dst) @ [src ! i]"
    using dl len by (simp add: setTasks_nth setTasks_length)
  have p4: "Tasks (Columns (board ?m) ! c) = take i src @ drop (Suc i) src"
    using cl cd len by (simp add: setTasks_nth setTasks_nth_other)
  have p5: "\<forall>j<3. j \<noteq> c \<and> j \<noteq> nat dst \<longrightarrow> Columns (board ?m) ! j = Columns (board m) ! j"
    by (simp add: setTasks_nth_other)
  have p6: "cursorTask ?m = int (length (Tasks (Columns (board ?m) ! nat dst))) - 1"
    using p3 by simp
  show ?thesis
    apply (rule exI [of _ ?m])
    apply (rule exI [of _ ?fs])
    using u mv u0 p1 p2 p3 p4 p5 p6 apply simp
    done
qed

theorem move_task_witness:
  "\<exists>m' fs'. Update typing e0 Map.empty (KeyMsg '']'') demo = Some (m', NoCmd, fs') \<and>
      Update0 typing e0 Map.empty (KeyMsg '']'') demo = Some (m', NoCmd, fs') \<and>
      three_columns m' \<and> count_tasks (board m') = 3 \<and>
      Tasks (Columns (board m') ! 1) = [task3, task2] \<and>
      Tasks (Columns (board m') ! 0) = [task1] \<and>
      Columns (board m') ! 2 = Columns (board demo) ! 2 \<and>
      cursorColumn m' = 1 \<and> cursorTask m' = 1 \<and>
      fs' kanban_json = Some (Document (marshal_KanbanBoard (board m')))"
proof -
  have h: "three_columns demo" "cursor_ok demo" "browsing demo"
    "Tasks (Columns (board demo) ! nat (cursorColumn demo)) \<noteq> []"
    by (simp_all add: demo_def demo_board_def three_columns_def cursor_ok_def browsing_def)
  have c: "count_tasks (board demo) = 3" "savePath demo = kanban_json" "\<not> fault e0"
    "Tasks (Columns (board demo) ! 1) = [task3]"
    "Tasks (Columns (board demo) ! 0) = [task1, task2]"
    "cursorColumn demo = 0" "cursorTask demo = 1"
    by (simp_all add: demo_def demo_board_def count_tasks_def e0_def)
  from move_task [OF h, where k = "'']''" and dst = 1 and ti = typing and e = e0
      and fs = Map.empty]
  obtain m' fs' where
    "Update typing e0 Map.empty (KeyMsg '']'') demo = Some (m', NoCmd, fs')"
    "Update0 typing e0 Map.empty (KeyMsg '']'') demo = Some (m', NoCmd, fs')"
    "three_columns m'" "count_tasks (board m') = 3"
    "Tasks (Columns (board m') ! 1) = [task3, task2]"
    "Tasks (Columns (board m') ! 0) = [task1]"
    "Columns (board m') ! 2 = Columns (board demo) ! 2"
    "cursorColumn m' = 1" "cursorTask m' = 1"
    "fs' kanban_json = Some (Document (marshal_KanbanBoard (board m')))"
    using c by auto
  then show ?thesis by blast
qed

section \<open>Quitting when the save fails\<close>

text \<open>
  Claim C8, as amended. When a quit key is pressed and the save of the board fails, the
  error is stored in \<^verbatim>\<open>m.err\<close> (which the view shows) and \<open>Update\<close> returns no command:
  \<^verbatim>\<open>tea.Quit\<close> is not issued, nothing else of the model changes, and the program goes on
  with the next message. Both source files do so.
\<close>

theorem failed_save_on_quit_keeps_running:
  assumes "browsing m" and "k = ''q'' \<or> k = ''ctrl+c''" and "fault e"
  shows "fst (saveBoard e fs m) = Some PathError \<and>
         Update ti e fs (KeyMsg k) m = Some (m\<lparr>err := Some PathError\<rparr>, NoCmd, fs) \<and>
         Update0 ti e fs (KeyMsg k) m = Some (m\<lparr>err := Some PathError\<rparr>, NoCmd, fs) \<and>
         run (Update ti) ((e, KeyMsg k) # rest) fs m =
           run (Update ti) rest fs (m\<lparr>err := Some PathError\<rparr>) \<and>
         run (Update0 ti) ((e, KeyMsg k) # rest) fs m =
           run (Update0 ti) rest fs (m\<lparr>err := Some PathError\<rparr>)"
  using assms
  by (simp add: quit_dispatch quit_dispatch0 quitKey_fault saveBoard_fault)

theorem failed_save_on_quit_keeps_running_witness:
  "Update typing e_fault Map.empty (KeyMsg ''q'') demo =
     Some (demo\<lparr>err := Some PathError\<rparr>, NoCmd, Map.empty) \<and>
   run (Update typing) [(e_fault, KeyMsg ''q''), (e0, KeyMsg ''l'')] Map.empty demo =
     run (Update typing) [(e0, KeyMsg ''l'')] Map.empty (demo\<lparr>err := Some PathError\<rparr>)"
  using failed_save_on_quit_keeps_running
    [of demo "''q''" e_fault Map.empty typing "[(e0, KeyMsg ''l'')]"]
  by (simp add: browsing_def demo_def e_fault_def)

text \<open>The claim as stated fails: with a file system that refuses the write, the quit
  key on the demo board saves nothing and returns no \<open>Quit\<close>, in either source file.\<close>

theorem failed_save_on_quit_counterexample:
  "fst (saveBoard e_fault Map.empty demo) \<noteq> None \<and>
   (\<nexists>m' fs'. Update typing e_fault Map.empty (KeyMsg ''q'') demo = Some (m', Quit, fs')) \<and>
   (\<nexists>m' fs'. Update0 typing e_fault Map.empty (KeyMsg ''q'') demo = Some (m', Quit, fs'))"
  by (simp add: quit_dispatch quit_dispatch0 quitKey_fault saveBoard_fault browsing_def
      demo_def e_fault_def)

section \<open>The keys of the input dialog in normal mode\<close>

text \<open>
  Claim C9, as amended. In the normal sub-mode of the input dialog, \<^verbatim>\<open>i\<close> goes to insert
  mode; \<^verbatim>\<open>esc\<close> and \<^verbatim>\<open>ctrl+c\<close> clear the buffer and close the dialog with the board as
  it was; \<^verbatim>\<open>enter\<close> commits as it does in insert mode; \<^verbatim>\<open>q\<close> is the quit key and \<^verbatim>\<open>?\<close>
  flips the help flag. Every other key is handed to the text input, as it is in insert
  mode, so a character key does change the buffer.
\<close>

theorem normal_entry_keys:
  assumes "normal_entry m"
  shows "Update ti e fs (KeyMsg ''i'') m = Some (m\<lparr>inputState := InsertMode\<rparr>, NoCmd, fs) \<and>
    (k = ''esc'' \<or> k = ''ctrl+c'' \<longrightarrow>
       Update ti e fs (KeyMsg k) m =
         Some (m\<lparr>inputMode := False, textInput := Reset (textInput m), inputState := NormalMode,
                 editingTask := None, dialogType := NoDialog\<rparr>, NoCmd, fs)) \<and>
    Update ti e fs (KeyMsg ''enter'') m =
      Update ti e fs (KeyMsg ''enter'') (m\<lparr>inputState := InsertMode\<rparr>) \<and>
    Update ti e fs (KeyMsg ''q'') m = quitKey e fs m \<and>
    Update ti e fs (KeyMsg ''?'') m = Some (m\<lparr>showHelp := \<not> showHelp m\<rparr>, NoCmd, fs) \<and>
    (k \<notin> {''i'', ''esc'', ''ctrl+c'', ''enter'', ''q'', ''?''} \<longrightarrow>
       Update ti e fs (KeyMsg k) m =
         Some (m\<lparr>textInput := fst (ti (KeyMsg k) (textInput m))\<rparr>,
               snd (ti (KeyMsg k) (textInput m)), fs) \<and>
       Update ti e fs (KeyMsg k) (m\<lparr>inputState := InsertMode\<rparr>) =
         Some (m\<lparr>inputState := InsertMode, textInput := fst (ti (KeyMsg k) (textInput m))\<rparr>,
               snd (ti (KeyMsg k) (textInput m)), fs))"
proof -
  have ins: "insert_entry (m\<lparr>inputState := InsertMode\<rparr>)"
    using assms by (simp add: normal_entry_def insert_entry_def)
  have 1: "Update ti e fs (KeyMsg ''i'') m = Some (m\<lparr>inputState := InsertMode\<rparr>, NoCmd, fs)"
    using assms by (simp add: normal_entry_dispatch updateInput_def normal_entry_def)
  have 2: "k = ''esc'' \<or> k = ''ctrl+c'' \<longrightarrow>
       Update ti e fs (KeyMsg k) m =
         Some (m\<lparr>inputMode := False, textInput := Reset (textInput m), inputState := NormalMode,
                 editingTask := None, dialogType := NoDialog\<rparr>, NoCmd, fs)"
    using assms by (auto simp add: normal_entry_dispatch updateInput_def normal_entry_def)
  have 3: "Update ti e fs (KeyMsg ''enter'') m =
      Update ti e fs (KeyMsg ''enter'') (m\<lparr>inputState := InsertMode\<rparr>)"
    using assms ins
    by (simp add: normal_entry_dispatch insert_entry_dispatch updateInput_def normal_entry_def
        commitInput_inputState)
  have 4: "Update ti e fs (KeyMsg ''q'') m = quitKey e fs m"
    using assms by (simp add: normal_entry_dispatch updateInput_def normal_entry_def)
  have 5: "Update ti e fs (KeyMsg ''?'') m = Some (m\<lparr>showHelp := \<not> showHelp m\<rparr>, NoCmd, fs)"
    using assms by (simp add: normal_entry_dispatch updateInput_def normal_entry_def)
  have 6: "k \<notin> {''i'', ''esc'', ''ctrl+c'', ''enter'', ''q'', ''?''} \<longrightarrow>
       Update ti e fs (KeyMsg k) m =
         Some (m\<lparr>textInput := fst (ti (KeyMsg k) (textInput m))\<rparr>,
               snd (ti (KeyMsg k) (textInput m)), fs)"
    using assms by (simp add: normal_entry_other forward_def split: prod.splits)
  have 7: "k \<notin> {''i'', ''esc'', ''ctrl+c'', ''enter'', ''q'', ''?''} \<longrightarrow>
       Update ti e fs (KeyMsg k) (m\<lparr>inputState := InsertMode\<rparr>) =
         Some (m\<lparr>inputState := InsertMode, textInput := fst (ti (KeyMsg k) (textInput m))\<rparr>,
               snd (ti (KeyMsg k) (textInput m)), fs)"
    using ins by (simp add: insert_entry_other forward_def split: prod.splits)
  from 1 2 3 4 5 6 7 show ?thesis by blast
qed

theorem normal_entry_keys_witness:
  "normal_entry typing_a_task \<and>
   Update typing e0 Map.empty (KeyMsg ''i'') typing_a_task =
     Some (typing_a_task\<lparr>inputState := InsertMode\<rparr>, NoCmd, Map.empty) \<and>
   Update typing e0 Map.empty (KeyMsg ''x'') typing_a_task =
     Some (typing_a_task\<lparr>textInput := \<lparr>Value = ''hx''\<rparr>\<rparr>, NoCmd, Map.empty)"
  using normal_entry_keys [of typing_a_task typing e0 Map.empty "''x''"]
  by (simp add: normal_entry_def typing_a_task_def demo_def typing_def)

text \<open>The claim as stated fails: the keys \<^verbatim>\<open>a\<close>, \<^verbatim>\<open>h\<close>, \<^verbatim>\<open>esc\<close> on the demo board lead to
  the dialog for a new task in normal mode with the buffer \<^verbatim>\<open>h\<close>, and the key \<^verbatim>\<open>x\<close>
  there makes the buffer \<^verbatim>\<open>hx\<close>.\<close>

theorem normal_entry_counterexample:
  "\<exists>m. run (Update typing) [(e0, KeyMsg ''a''), (e0, KeyMsg ''h''), (e0, KeyMsg ''esc'')]
          Map.empty demo = Some (m, Map.empty) \<and>
       normal_entry m \<and> Value (textInput m) = ''h'' \<and>
       (\<exists>m'. Update typing e0 Map.empty (KeyMsg ''x'') m = Some (m', NoCmd, Map.empty) \<and>
             Value (textInput m') = ''hx'')"
proof (intro exI conjI)
  show "run (Update typing) [(e0, KeyMsg ''a''), (e0, KeyMsg ''h''), (e0, KeyMsg ''esc'')]
          Map.empty demo = Some (typing_a_task, Map.empty)"
    by (rule reach_typing)
  show "normal_entry typing_a_task"
    by (simp add: normal_entry_def typing_a_task_def demo_def)
  show "Value (textInput typing_a_task) = ''h''"
    by (simp add: typing_a_task_def)
  show "Update typing e0 Map.empty (KeyMsg ''x'') typing_a_task =
          Some (typing_a_task\<lparr>textInput := \<lparr>Value = ''hx''\<rparr>\<rparr>, NoCmd, Map.empty)"
    by (simp add: typing_a_task_def demo_def Update_def updateInput_def forward_def typing_def)
  show "Value (textInput (typing_a_task\<lparr>textInput := \<lparr>Value = ''hx''\<rparr>\<rparr>)) = ''hx''"
    by simp
qed

section \<open>Moving the selection to an adjacent column\<close>

text \<open>
  Claim C10. In browsing mode, the keys \<^verbatim>\<open>left\<close>/\<^verbatim>\<open>h\<close> (when there is a column to the
  left) and \<^verbatim>\<open>right\<close>/\<^verbatim>\<open>l\<close> (when there is one to the right) move the column cursor by
  one and set the task cursor to 0, whatever row was selected and however many tasks the
  new column holds; nothing else of the model changes. Both source files do so.
\<close>

theorem column_move_resets_task_cursor:
  assumes "three_columns m" and "browsing m" and "0 \<le> cursorColumn m" and "cursorColumn m < 3"
    and "(k = ''left'' \<or> k = ''h'') \<and> 0 < cursorColumn m \<and> d = - 1 \<or>
         (k = ''right'' \<or> k = ''l'') \<and> cursorColumn m < 2 \<and> d = 1"
  shows "Update ti e fs (KeyMsg k) m =
           Some (m\<lparr>cursorColumn := cursorColumn m + d, cursorTask := 0\<rparr>, NoCmd, fs) \<and>
         Update0 ti e fs (KeyMsg k) m =
           Some (m\<lparr>cursorColumn := cursorColumn m + d, cursorTask := 0\<rparr>, NoCmd, fs)"
  using assms
  apply (elim disjE conjE)
  apply (simp_all add: Update_def Update0_def updateBrowsing_def keySwitch0_def tail0_def
      three_columns_def browsing_def updateViewportContent_def Let_def)
  apply auto
  done

theorem column_move_resets_task_cursor_witness:
  "Update typing e0 Map.empty (KeyMsg ''l'') demo =
     Some (demo\<lparr>cursorColumn := 1, cursorTask := 0\<rparr>, NoCmd, Map.empty) \<and>
   Update0 typing e0 Map.empty (KeyMsg ''l'') demo =
     Some (demo\<lparr>cursorColumn := 1, cursorTask := 0\<rparr>, NoCmd, Map.empty) \<and>
   cursorTask demo = 1"
  using column_move_resets_task_cursor [of demo "''l''" 1 typing e0 Map.empty]
  by (simp add: demo_def demo_board_def three_columns_def browsing_def)

end
